theory Spec2Isabelle
  imports Complex_Main "HOL-Library.Sublist" "HOL-Library.AList"
begin

section \<open>Strings\<close>

text \<open>
  The bot is a single JavaScript file, \<^verbatim>\<open>src/index.js\<close>. Its strings are modelled as
  values of type \<^typ>\<open>string\<close> holding the UTF-8 bytes of the text, so the Cyrillic literals
  of the source appear below as byte lists. None of the functions modelled here measures
  the length of a string other than to test it for emptiness, and emptiness does not
  depend on the encoding.

  \<^verbatim>\<open>String.prototype.trim\<close> removes the code points of the ECMAScript classes WhiteSpace and
  LineTerminator from both ends. All of them lie in the Basic Multilingual Plane; the
  table lists their UTF-8 encodings (U+0009 to U+000D, U+0020, U+00A0, U+1680, U+2000 to
  U+200A, U+2028, U+2029, U+202F, U+205F, U+3000, U+FEFF).
\<close>

definition whiteSpace :: "string list" where
  "whiteSpace =
    [[CHR 0x09], [CHR 0x0A], [CHR 0x0B],
     [CHR 0x0C], [CHR 0x0D], [CHR 0x20],
     [CHR 0xC2, CHR 0xA0], [CHR 0xE1, CHR 0x9A, CHR 0x80], [CHR 0xE2, CHR 0x80, CHR 0x80],
     [CHR 0xE2, CHR 0x80, CHR 0x81], [CHR 0xE2, CHR 0x80, CHR 0x82], [CHR 0xE2, CHR 0x80, CHR 0x83],
     [CHR 0xE2, CHR 0x80, CHR 0x84], [CHR 0xE2, CHR 0x80, CHR 0x85], [CHR 0xE2, CHR 0x80, CHR 0x86],
     [CHR 0xE2, CHR 0x80, CHR 0x87], [CHR 0xE2, CHR 0x80, CHR 0x88], [CHR 0xE2, CHR 0x80, CHR 0x89],
     [CHR 0xE2, CHR 0x80, CHR 0x8A], [CHR 0xE2, CHR 0x80, CHR 0xA8], [CHR 0xE2, CHR 0x80, CHR 0xA9],
     [CHR 0xE2, CHR 0x80, CHR 0xAF], [CHR 0xE2, CHR 0x81, CHR 0x9F], [CHR 0xE3, CHR 0x80, CHR 0x80],
     [CHR 0xEF, CHR 0xBB, CHR 0xBF]]"

definition wsLength :: "string list \<Rightarrow> string \<Rightarrow> nat" where
  \<comment> \<open>the length of the first pattern that the string starts with, 0 when there is none\<close>
  "wsLength ws s = (case List.find (\<lambda>w. prefix w s) ws of None \<Rightarrow> 0 | Some w \<Rightarrow> length w)"

fun stripLeading :: "string list \<Rightarrow> string \<Rightarrow> string" where
  "stripLeading ws [] = []"
| "stripLeading ws (c # cs) =
     (case wsLength ws (c # cs) of 0 \<Rightarrow> c # cs | Suc n \<Rightarrow> stripLeading ws (drop n cs))"

definition trimStart :: "string \<Rightarrow> string" where
  "trimStart s = stripLeading whiteSpace s"

definition trimEnd :: "string \<Rightarrow> string" where
  "trimEnd s = rev (stripLeading (map rev whiteSpace) (rev s))"

definition trim :: "string \<Rightarrow> string" where
  "trim s = trimEnd (trimStart s)"

text \<open>
  \<^verbatim>\<open>s.split(c)\<close> for a one-character separator: the pieces between the separators, in
  order. The result is never the empty array (\<^verbatim>\<open>''.split(',')\<close> is \<^verbatim>\<open>['']\<close>).
\<close>

fun jsSplit :: "char \<Rightarrow> string \<Rightarrow> string list" where
  "jsSplit c [] = [[]]"
| "jsSplit c (x # xs) =
     (if x = c then [] # jsSplit c xs
      else (case jsSplit c xs of [] \<Rightarrow> [[x]] | p # ps \<Rightarrow> (x # p) # ps))"

definition elemAt :: "'a list \<Rightarrow> nat \<Rightarrow> 'a option" where
  \<comment> \<open>reading an array element; \<open>None\<close> is JavaScript's \<^verbatim>\<open>undefined\<close> out of range\<close>
  "elemAt xs i = (if i < length xs then Some (xs ! i) else None)"

definition dayKey :: "string \<Rightarrow> string" where
  \<comment> \<open>\<^verbatim>\<open>s.split(',')[0]\<close>, the part of a timestamp before its first comma\<close>
  "dayKey s = (case jsSplit CHR '','' s of [] \<Rightarrow> [] | datePart # _ \<Rightarrow> datePart)"

section \<open>Fixed texts of the source\<close>

definition systemInstruction :: string where
  \<comment> \<open>the persona instruction given to every provider, lines 62-63\<close>
  "systemInstruction =
    [CHR 0xD0, CHR 0xA2, CHR 0xD1, CHR 0x8B, CHR 0x20, CHR 0xE2, CHR 0x80, CHR 0x94,
     CHR 0x20, CHR 0xD0, CHR 0x93, CHR 0xD0, CHR 0xB5, CHR 0xD1, CHR 0x80, CHR 0xD0,
     CHR 0xBC, CHR 0xD0, CHR 0xB8, CHR 0xD0, CHR 0xBE, CHR 0xD0, CHR 0xBD, CHR 0xD0,
     CHR 0xB0, CHR 0x20, CHR 0xD0, CHR 0x93, CHR 0xD1, CHR 0x80, CHR 0xD0, CHR 0xB5,
     CHR 0xD0, CHR 0xB9, CHR 0xD0, CHR 0xBD, CHR 0xD0, CHR 0xB4, CHR 0xD0, CHR 0xB6,
     CHR 0xD0, CHR 0xB5, CHR 0xD1, CHR 0x80, CHR 0x2C, CHR 0x20, CHR 0x0A, CHR 0x09]"

definition assistantName :: string where
  \<comment> \<open>the assistant's name (UTF-8 bytes of the Cyrillic literal at lines 256, 1375)\<close>
  "assistantName =
    [CHR 0xD0, CHR 0x93, CHR 0xD0, CHR 0xB5, CHR 0xD1, CHR 0x80, CHR 0xD0, CHR 0xBC,
     CHR 0xD0, CHR 0xB8, CHR 0xD0, CHR 0xBE, CHR 0xD0, CHR 0xBD, CHR 0xD0, CHR 0xB0]"

definition memoriesFor :: string where
  \<comment> \<open>the label that opens a memory fragment, lines 243 and 1143 (``Memories for '')\<close>
  "memoriesFor =
    [CHR 0xD0, CHR 0x92, CHR 0xD0, CHR 0xBE, CHR 0xD1, CHR 0x81, CHR 0xD0, CHR 0xBF,
     CHR 0xD0, CHR 0xBE, CHR 0xD0, CHR 0xBC, CHR 0xD0, CHR 0xB8, CHR 0xD0, CHR 0xBD,
     CHR 0xD0, CHR 0xB0, CHR 0xD0, CHR 0xBD, CHR 0xD0, CHR 0xB8, CHR 0xD1, CHR 0x8F,
     CHR 0x20, CHR 0xD0, CHR 0xB7, CHR 0xD0, CHR 0xB0, CHR 0x20]"

definition previousMemories :: string where
  \<comment> \<open>head of the background fragment, line 1159 (``Previous memories:'')\<close>
  "previousMemories =
    [CHR 0xD0, CHR 0x9F, CHR 0xD1, CHR 0x80, CHR 0xD0, CHR 0xB5, CHR 0xD0, CHR 0xB4,
     CHR 0xD1, CHR 0x8B, CHR 0xD0, CHR 0xB4, CHR 0xD1, CHR 0x83, CHR 0xD1, CHR 0x89,
     CHR 0xD0, CHR 0xB8, CHR 0xD0, CHR 0xB5, CHR 0x20, CHR 0xD0, CHR 0xB2, CHR 0xD0,
     CHR 0xBE, CHR 0xD1, CHR 0x81, CHR 0xD0, CHR 0xBF, CHR 0xD0, CHR 0xBE, CHR 0xD0,
     CHR 0xBC, CHR 0xD0, CHR 0xB8, CHR 0xD0, CHR 0xBD, CHR 0xD0, CHR 0xB0, CHR 0xD0,
     CHR 0xBD, CHR 0xD0, CHR 0xB8, CHR 0xD1, CHR 0x8F, CHR 0x3A]"

definition promptHead :: string where
  \<comment> \<open>the summarisation prompt before the day key, line 1156\<close>
  "promptHead =
    [CHR 0xD0, CHR 0xA2, CHR 0xD1, CHR 0x8B, CHR 0x20, CHR 0xD0, CHR 0x93, CHR 0xD0,
     CHR 0xB5, CHR 0xD1, CHR 0x80, CHR 0xD0, CHR 0xBC, CHR 0xD0, CHR 0xB8, CHR 0xD0,
     CHR 0xBE, CHR 0xD0, CHR 0xBD, CHR 0xD0, CHR 0xB0, CHR 0x20, CHR 0xD0, CHR 0x93,
     CHR 0xD1, CHR 0x80, CHR 0xD0, CHR 0xB5, CHR 0xD0, CHR 0xB9, CHR 0xD0, CHR 0xBD,
     CHR 0xD0, CHR 0xB4, CHR 0xD0, CHR 0xB6, CHR 0xD0, CHR 0xB5, CHR 0xD1, CHR 0x80,
     CHR 0x20, CHR 0xD0, CHR 0xB8, CHR 0x20, CHR 0xD1, CHR 0x82, CHR 0xD0, CHR 0xB2,
     CHR 0xD0, CHR 0xBE, CHR 0xD1, CHR 0x8F, CHR 0x20, CHR 0xD0, CHR 0xB7, CHR 0xD0,
     CHR 0xB0, CHR 0xD0, CHR 0xB4, CHR 0xD0, CHR 0xB0, CHR 0xD1, CHR 0x87, CHR 0xD0,
     CHR 0xB0, CHR 0x2C, CHR 0x20, CHR 0xD0, CHR 0xBF, CHR 0xD0, CHR 0xBE, CHR 0xD1,
     CHR 0x81, CHR 0xD0, CHR 0xBC, CHR 0xD0, CHR 0xBE, CHR 0xD1, CHR 0x82, CHR 0xD1,
     CHR 0x80, CHR 0xD0, CHR 0xB5, CHR 0xD0, CHR 0xB2, CHR 0x20, CHR 0xD0, CHR 0xBD,
     CHR 0xD0, CHR 0xB0, CHR 0x20, CHR 0xD1, CHR 0x8D, CHR 0xD1, CHR 0x82, CHR 0xD1,
     CHR 0x83, CHR 0x20, CHR 0xD0, CHR 0xBF, CHR 0xD0, CHR 0xB5, CHR 0xD1, CHR 0x80,
     CHR 0xD0, CHR 0xB5, CHR 0xD0, CHR 0xBF, CHR 0xD0, CHR 0xB8, CHR 0xD1, CHR 0x81,
     CHR 0xD0, CHR 0xBA, CHR 0xD1, CHR 0x83, CHR 0x20, CHR 0xD0, CHR 0xB7, CHR 0xD0,
     CHR 0xB0, CHR 0x20]"

definition promptTail :: string where
  \<comment> \<open>the summarisation prompt after the day key, line 1156\<close>
  "promptTail =
    [CHR 0x2C, CHR 0x20, CHR 0x2E, CHR 0x2E, CHR 0x2E, CHR 0x20, CHR 0x28, CHR 0xD1,
     CHR 0x82, CHR 0xD0, CHR 0xB2, CHR 0xD0, CHR 0xBE, CHR 0xD0, CHR 0xB9, CHR 0x20,
     CHR 0xD0, CHR 0xB0, CHR 0xD0, CHR 0xBA, CHR 0xD1, CHR 0x82, CHR 0xD1, CHR 0x83,
     CHR 0xD0, CHR 0xB0, CHR 0xD0, CHR 0xBB, CHR 0xD1, CHR 0x8C, CHR 0xD0, CHR 0xBD,
     CHR 0xD1, CHR 0x8B, CHR 0xD0, CHR 0xB9, CHR 0x20, CHR 0xD0, CHR 0xB7, CHR 0xD0,
     CHR 0xB0, CHR 0xD0, CHR 0xBF, CHR 0xD1, CHR 0x80, CHR 0xD0, CHR 0xBE, CHR 0xD1,
     CHR 0x81, CHR 0x20, CHR 0xD0, CHR 0xBD, CHR 0xD0, CHR 0xB0, CHR 0x20, CHR 0xD1,
     CHR 0x81, CHR 0xD1, CHR 0x83, CHR 0xD0, CHR 0xBC, CHR 0xD0, CHR 0xBC, CHR 0xD0,
     CHR 0xB0, CHR 0xD1, CHR 0x80, CHR 0xD0, CHR 0xB8, CHR 0xD0, CHR 0xB7, CHR 0xD0,
     CHR 0xB0, CHR 0xD1, CHR 0x86, CHR 0xD0, CHR 0xB8, CHR 0xD1, CHR 0x8E, CHR 0x29]"

definition noSummaryMsg :: string where
  \<comment> \<open>message of the error thrown at line 1168 (before the day key)\<close>
  "noSummaryMsg =
    [CHR 0xD0, CHR 0x9D, CHR 0xD0, CHR 0xB5, CHR 0x20, CHR 0xD1, CHR 0x83, CHR 0xD0,
     CHR 0xB4, CHR 0xD0, CHR 0xB0, CHR 0xD0, CHR 0xBB, CHR 0xD0, CHR 0xBE, CHR 0xD1,
     CHR 0x81, CHR 0xD1, CHR 0x8C, CHR 0x20, CHR 0xD1, CHR 0x81, CHR 0xD0, CHR 0xB3,
     CHR 0xD0, CHR 0xB5, CHR 0xD0, CHR 0xBD, CHR 0xD0, CHR 0xB5, CHR 0xD1, CHR 0x80,
     CHR 0xD0, CHR 0xB8, CHR 0xD1, CHR 0x80, CHR 0xD0, CHR 0xBE, CHR 0xD0, CHR 0xB2,
     CHR 0xD0, CHR 0xB0, CHR 0xD1, CHR 0x82, CHR 0xD1, CHR 0x8C, CHR 0x20, CHR 0xD1,
     CHR 0x81, CHR 0xD1, CHR 0x83, CHR 0xD0, CHR 0xBC, CHR 0xD0, CHR 0xBC, CHR 0xD0,
     CHR 0xB0, CHR 0xD1, CHR 0x80, CHR 0xD0, CHR 0xB8, CHR 0xD0, CHR 0xB7, CHR 0xD0,
     CHR 0xB0, CHR 0xD1, CHR 0x86, CHR 0xD0, CHR 0xB8, CHR 0xD1, CHR 0x8E, CHR 0x20,
     CHR 0xD0, CHR 0xB7, CHR 0xD0, CHR 0xB0, CHR 0x20]"

definition unavailableMsg :: string where
  \<comment> \<open>message of the error thrown at line 1216\<close>
  "unavailableMsg =
    [CHR 0xD0, CHR 0x9C, CHR 0xD0, CHR 0xBE, CHR 0xD0, CHR 0xB4, CHR 0xD0, CHR 0xB5,
     CHR 0xD0, CHR 0xBB, CHR 0xD1, CHR 0x8C, CHR 0x20, CHR 0xD0, CHR 0xB2, CHR 0xD1,
     CHR 0x80, CHR 0xD0, CHR 0xB5, CHR 0xD0, CHR 0xBC, CHR 0xD0, CHR 0xB5, CHR 0xD0,
     CHR 0xBD, CHR 0xD0, CHR 0xBD, CHR 0xD0, CHR 0xBE, CHR 0x20, CHR 0xD0, CHR 0xBD,
     CHR 0xD0, CHR 0xB5, CHR 0xD0, CHR 0xB4, CHR 0xD0, CHR 0xBE, CHR 0xD1, CHR 0x81,
     CHR 0xD1, CHR 0x82, CHR 0xD1, CHR 0x83, CHR 0xD0, CHR 0xBF, CHR 0xD0, CHR 0xBD,
     CHR 0xD0, CHR 0xB0, CHR 0x2E, CHR 0x20, CHR 0xD0, CHR 0x9F, CHR 0xD0, CHR 0xBE,
     CHR 0xD0, CHR 0xBF, CHR 0xD1, CHR 0x80, CHR 0xD0, CHR 0xBE, CHR 0xD0, CHR 0xB1,
     CHR 0xD1, CHR 0x83, CHR 0xD0, CHR 0xB9, CHR 0x20, CHR 0xD0, CHR 0xBF, CHR 0xD0,
     CHR 0xBE, CHR 0xD0, CHR 0xB7, CHR 0xD0, CHR 0xB6, CHR 0xD0, CHR 0xB5, CHR 0x2E]"

definition tooManyMsg :: string where
  \<comment> \<open>message of the error thrown at line 1218\<close>
  "tooManyMsg =
    [CHR 0xD0, CHR 0xA1, CHR 0xD0, CHR 0xBB, CHR 0xD0, CHR 0xB8, CHR 0xD1, CHR 0x88,
     CHR 0xD0, CHR 0xBA, CHR 0xD0, CHR 0xBE, CHR 0xD0, CHR 0xBC, CHR 0x20, CHR 0xD0,
     CHR 0xBC, CHR 0xD0, CHR 0xBD, CHR 0xD0, CHR 0xBE, CHR 0xD0, CHR 0xB3, CHR 0xD0,
     CHR 0xBE, CHR 0x20, CHR 0xD0, CHR 0xB7, CHR 0xD0, CHR 0xB0, CHR 0xD0, CHR 0xBF,
     CHR 0xD1, CHR 0x80, CHR 0xD0, CHR 0xBE, CHR 0xD1, CHR 0x81, CHR 0xD0, CHR 0xBE,
     CHR 0xD0, CHR 0xB2, CHR 0x2E, CHR 0x20, CHR 0xD0, CHR 0x9F, CHR 0xD0, CHR 0xBE,
     CHR 0xD0, CHR 0xBF, CHR 0xD1, CHR 0x80, CHR 0xD0, CHR 0xBE, CHR 0xD0, CHR 0xB1,
     CHR 0xD1, CHR 0x83, CHR 0xD0, CHR 0xB9, CHR 0x20, CHR 0xD0, CHR 0xBF, CHR 0xD0,
     CHR 0xBE, CHR 0xD0, CHR 0xB7, CHR 0xD0, CHR 0xB6, CHR 0xD0, CHR 0xB5, CHR 0x2E]"

definition blockedMsg :: string where
  \<comment> \<open>message of the error thrown at line 1224\<close>
  "blockedMsg =
    [CHR 0xD0, CHR 0x9E, CHR 0xD1, CHR 0x82, CHR 0xD0, CHR 0xB2, CHR 0xD0, CHR 0xB5,
     CHR 0xD1, CHR 0x82, CHR 0x20, CHR 0xD0, CHR 0xB7, CHR 0xD0, CHR 0xB0, CHR 0xD0,
     CHR 0xB1, CHR 0xD0, CHR 0xBB, CHR 0xD0, CHR 0xBE, CHR 0xD0, CHR 0xBA, CHR 0xD0,
     CHR 0xB8, CHR 0xD1, CHR 0x80, CHR 0xD0, CHR 0xBE, CHR 0xD0, CHR 0xB2, CHR 0xD0,
     CHR 0xB0, CHR 0xD0, CHR 0xBD, CHR 0x20, CHR 0xD0, CHR 0xB8, CHR 0xD0, CHR 0xB7,
     CHR 0x2D, CHR 0xD0, CHR 0xB7, CHR 0xD0, CHR 0xB0, CHR 0x20, CHR 0xD0, CHR 0xB7,
     CHR 0xD0, CHR 0xB0, CHR 0xD0, CHR 0xBF, CHR 0xD1, CHR 0x80, CHR 0xD0, CHR 0xB5,
     CHR 0xD1, CHR 0x89, CHR 0xD1, CHR 0x91, CHR 0xD0, CHR 0xBD, CHR 0xD0, CHR 0xBD,
     CHR 0xD0, CHR 0xBE, CHR 0xD0, CHR 0xB3, CHR 0xD0, CHR 0xBE, CHR 0x20, CHR 0xD1,
     CHR 0x81, CHR 0xD0, CHR 0xBE, CHR 0xD0, CHR 0xB4, CHR 0xD0, CHR 0xB5, CHR 0xD1,
     CHR 0x80, CHR 0xD0, CHR 0xB6, CHR 0xD0, CHR 0xB0, CHR 0xD0, CHR 0xBD, CHR 0xD0,
     CHR 0xB8, CHR 0xD1, CHR 0x8F, CHR 0x2E]"

definition noReplyMsg :: string where
  \<comment> \<open>message of the error thrown at lines 1342, 1537, 1728\<close>
  "noReplyMsg =
    [CHR 0xD0, CHR 0x9D, CHR 0xD0, CHR 0xB5, CHR 0x20, CHR 0xD1, CHR 0x83, CHR 0xD0,
     CHR 0xB4, CHR 0xD0, CHR 0xB0, CHR 0xD0, CHR 0xBB, CHR 0xD0, CHR 0xBE, CHR 0xD1,
     CHR 0x81, CHR 0xD1, CHR 0x8C, CHR 0x20, CHR 0xD1, CHR 0x81, CHR 0xD0, CHR 0xB3,
     CHR 0xD0, CHR 0xB5, CHR 0xD0, CHR 0xBD, CHR 0xD0, CHR 0xB5, CHR 0xD1, CHR 0x80,
     CHR 0xD0, CHR 0xB8, CHR 0xD1, CHR 0x80, CHR 0xD0, CHR 0xBE, CHR 0xD0, CHR 0xB2,
     CHR 0xD0, CHR 0xB0, CHR 0xD1, CHR 0x82, CHR 0xD1, CHR 0x8C, CHR 0x20, CHR 0xD0,
     CHR 0xBE, CHR 0xD1, CHR 0x82, CHR 0xD0, CHR 0xB2, CHR 0xD0, CHR 0xB5, CHR 0xD1,
     CHR 0x82]"

definition backupTag :: string where
  \<comment> \<open>the disclosure put before a reply of the backup model, line 1347\<close>
  "backupTag =
    [CHR 0x3C, CHR 0x69, CHR 0x3E, CHR 0xD1, CHR 0x80, CHR 0xD0, CHR 0xB5, CHR 0xD0,
     CHR 0xB7, CHR 0xD0, CHR 0xB5, CHR 0xD1, CHR 0x80, CHR 0xD0, CHR 0xB2, CHR 0xD0,
     CHR 0xBD, CHR 0xD0, CHR 0xB0, CHR 0xD1, CHR 0x8F, CHR 0x20, CHR 0xD0, CHR 0xBC,
     CHR 0xD0, CHR 0xBE, CHR 0xD0, CHR 0xB4, CHR 0xD0, CHR 0xB5, CHR 0xD0, CHR 0xBB,
     CHR 0xD1, CHR 0x8C, CHR 0x3A, CHR 0x3C, CHR 0x2F, CHR 0x69, CHR 0x3E, CHR 0x0A,
     CHR 0x0A]"

definition textApology :: string where
  \<comment> \<open>the fallback reply of the text handler, line 1366\<close>
  "textApology =
    [CHR 0xD0, CHR 0x98, CHR 0xD0, CHR 0xB7, CHR 0xD0, CHR 0xB2, CHR 0xD0, CHR 0xB8,
     CHR 0xD0, CHR 0xBD, CHR 0xD0, CHR 0xB8, CHR 0x2C, CHR 0x20, CHR 0xD0, CHR 0xBD,
     CHR 0xD0, CHR 0xBE, CHR 0x20, CHR 0xD1, CHR 0x8F, CHR 0x20, CHR 0xD0, CHR 0xBD,
     CHR 0xD0, CHR 0xB5, CHR 0x20, CHR 0xD1, CHR 0x81, CHR 0xD0, CHR 0xBC, CHR 0xD0,
     CHR 0xBE, CHR 0xD0, CHR 0xB3, CHR 0xD0, CHR 0xBB, CHR 0xD0, CHR 0xB0, CHR 0x20,
     CHR 0xD1, CHR 0x81, CHR 0xD1, CHR 0x84, CHR 0xD0, CHR 0xBE, CHR 0xD1, CHR 0x80,
     CHR 0xD0, CHR 0xBC, CHR 0xD1, CHR 0x83, CHR 0xD0, CHR 0xBB, CHR 0xD0, CHR 0xB8,
     CHR 0xD1, CHR 0x80, CHR 0xD0, CHR 0xBE, CHR 0xD0, CHR 0xB2, CHR 0xD0, CHR 0xB0,
     CHR 0xD1, CHR 0x82, CHR 0xD1, CHR 0x8C, CHR 0x20, CHR 0xD0, CHR 0xBE, CHR 0xD1,
     CHR 0x82, CHR 0xD0, CHR 0xB2, CHR 0xD0, CHR 0xB5, CHR 0xD1, CHR 0x82, CHR 0x2E]"

definition photoApology :: string where
  \<comment> \<open>the fallback reply of the photo handler, line 1557\<close>
  "photoApology =
    [CHR 0xD0, CHR 0x98, CHR 0xD0, CHR 0xB7, CHR 0xD0, CHR 0xB2, CHR 0xD0, CHR 0xB8,
     CHR 0xD0, CHR 0xBD, CHR 0xD0, CHR 0xB8, CHR 0x2C, CHR 0x20, CHR 0xD0, CHR 0xBD,
     CHR 0xD0, CHR 0xBE, CHR 0x20, CHR 0xD1, CHR 0x8F, CHR 0x20, CHR 0xD0, CHR 0xBD,
     CHR 0xD0, CHR 0xB5, CHR 0x20, CHR 0xD1, CHR 0x81, CHR 0xD0, CHR 0xBC, CHR 0xD0,
     CHR 0xBE, CHR 0xD0, CHR 0xB3, CHR 0xD0, CHR 0xBB, CHR 0xD0, CHR 0xB0, CHR 0x20,
     CHR 0xD0, CHR 0xBE, CHR 0xD0, CHR 0xB1, CHR 0xD1, CHR 0x80, CHR 0xD0, CHR 0xB0,
     CHR 0xD0, CHR 0xB1, CHR 0xD0, CHR 0xBE, CHR 0xD1, CHR 0x82, CHR 0xD0, CHR 0xB0,
     CHR 0xD1, CHR 0x82, CHR 0xD1, CHR 0x8C, CHR 0x20, CHR 0xD1, CHR 0x8D, CHR 0xD1,
     CHR 0x82, CHR 0xD0, CHR 0xBE, CHR 0x20, CHR 0xD0, CHR 0xB8, CHR 0xD0, CHR 0xB7,
     CHR 0xD0, CHR 0xBE, CHR 0xD0, CHR 0xB1, CHR 0xD1, CHR 0x80, CHR 0xD0, CHR 0xB0,
     CHR 0xD0, CHR 0xB6, CHR 0xD0, CHR 0xB5, CHR 0xD0, CHR 0xBD, CHR 0xD0, CHR 0xB8,
     CHR 0xD0, CHR 0xB5, CHR 0x2E]"

definition audioApology :: string where
  \<comment> \<open>the fallback reply of the voice/audio handler, line 1748\<close>
  "audioApology =
    [CHR 0xD0, CHR 0x98, CHR 0xD0, CHR 0xB7, CHR 0xD0, CHR 0xB2, CHR 0xD0, CHR 0xB8,
     CHR 0xD0, CHR 0xBD, CHR 0xD0, CHR 0xB8, CHR 0x2C, CHR 0x20, CHR 0xD0, CHR 0xBD,
     CHR 0xD0, CHR 0xBE, CHR 0x20, CHR 0xD1, CHR 0x8F, CHR 0x20, CHR 0xD0, CHR 0xBD,
     CHR 0xD0, CHR 0xB5, CHR 0x20, CHR 0xD1, CHR 0x81, CHR 0xD0, CHR 0xBC, CHR 0xD0,
     CHR 0xBE, CHR 0xD0, CHR 0xB3, CHR 0xD0, CHR 0xBB, CHR 0xD0, CHR 0xB0, CHR 0x20,
     CHR 0xD0, CHR 0xBE, CHR 0xD0, CHR 0xB1, CHR 0xD1, CHR 0x80, CHR 0xD0, CHR 0xB0,
     CHR 0xD0, CHR 0xB1, CHR 0xD0, CHR 0xBE, CHR 0xD1, CHR 0x82, CHR 0xD0, CHR 0xB0,
     CHR 0xD1, CHR 0x82, CHR 0xD1, CHR 0x8C, CHR 0x20, CHR 0xD1, CHR 0x8D, CHR 0xD1,
     CHR 0x82, CHR 0xD0, CHR 0xBE, CHR 0x20, CHR 0xD0, CHR 0xB0, CHR 0xD1, CHR 0x83,
     CHR 0xD0, CHR 0xB4, CHR 0xD0, CHR 0xB8, CHR 0xD0, CHR 0xBE, CHR 0xD1, CHR 0x81,
     CHR 0xD0, CHR 0xBE, CHR 0xD0, CHR 0xBE, CHR 0xD0, CHR 0xB1, CHR 0xD1, CHR 0x89,
     CHR 0xD0, CHR 0xB5, CHR 0xD0, CHR 0xBD, CHR 0xD0, CHR 0xB8, CHR 0xD0, CHR 0xB5,
     CHR 0x2E]"

definition photoWithCaption :: string where
  \<comment> \<open>the user turn recorded for a captioned photo, line 1563 (before the caption)\<close>
  "photoWithCaption =
    [CHR 0xD0, CHR 0x9E, CHR 0xD1, CHR 0x82, CHR 0xD0, CHR 0xBF, CHR 0xD1, CHR 0x80,
     CHR 0xD0, CHR 0xB0, CHR 0xD0, CHR 0xB2, CHR 0xD0, CHR 0xB8, CHR 0xD0, CHR 0xBB,
     CHR 0x28, CHR 0xD0, CHR 0xB0, CHR 0x29, CHR 0x20, CHR 0xD0, CHR 0xB8, CHR 0xD0,
     CHR 0xB7, CHR 0xD0, CHR 0xBE, CHR 0xD0, CHR 0xB1, CHR 0xD1, CHR 0x80, CHR 0xD0,
     CHR 0xB0, CHR 0xD0, CHR 0xB6, CHR 0xD0, CHR 0xB5, CHR 0xD0, CHR 0xBD, CHR 0xD0,
     CHR 0xB8, CHR 0xD0, CHR 0xB5, CHR 0x20, CHR 0xD1, CHR 0x81, CHR 0x20, CHR 0xD0,
     CHR 0xBA, CHR 0xD0, CHR 0xBE, CHR 0xD0, CHR 0xBC, CHR 0xD0, CHR 0xBC, CHR 0xD0,
     CHR 0xB5, CHR 0xD0, CHR 0xBD, CHR 0xD1, CHR 0x82, CHR 0xD0, CHR 0xB0, CHR 0xD1,
     CHR 0x80, CHR 0xD0, CHR 0xB8, CHR 0xD0, CHR 0xB5, CHR 0xD0, CHR 0xBC, CHR 0x3A,
     CHR 0x20, CHR 0x22]"

definition photoNoCaption :: string where
  \<comment> \<open>the user turn recorded for a photo without caption, line 1564\<close>
  "photoNoCaption =
    [CHR 0xD0, CHR 0x9E, CHR 0xD1, CHR 0x82, CHR 0xD0, CHR 0xBF, CHR 0xD1, CHR 0x80,
     CHR 0xD0, CHR 0xB0, CHR 0xD0, CHR 0xB2, CHR 0xD0, CHR 0xB8, CHR 0xD0, CHR 0xBB,
     CHR 0x28, CHR 0xD0, CHR 0xB0, CHR 0x29, CHR 0x20, CHR 0xD0, CHR 0xB8, CHR 0xD0,
     CHR 0xB7, CHR 0xD0, CHR 0xBE, CHR 0xD0, CHR 0xB1, CHR 0xD1, CHR 0x80, CHR 0xD0,
     CHR 0xB0, CHR 0xD0, CHR 0xB6, CHR 0xD0, CHR 0xB5, CHR 0xD0, CHR 0xBD, CHR 0xD0,
     CHR 0xB8, CHR 0xD0, CHR 0xB5]"

definition audioSent :: string where
  \<comment> \<open>the user turn recorded for a voice or audio message, lines 1708, 1753\<close>
  "audioSent =
    [CHR 0xD0, CHR 0x9E, CHR 0xD1, CHR 0x82, CHR 0xD0, CHR 0xBF, CHR 0xD1, CHR 0x80,
     CHR 0xD0, CHR 0xB0, CHR 0xD0, CHR 0xB2, CHR 0xD0, CHR 0xB8, CHR 0xD0, CHR 0xBB,
     CHR 0x28, CHR 0xD0, CHR 0xB0, CHR 0x29, CHR 0x20, CHR 0xD0, CHR 0xB0, CHR 0xD1,
     CHR 0x83, CHR 0xD0, CHR 0xB4, CHR 0xD0, CHR 0xB8, CHR 0xD0, CHR 0xBE, CHR 0xD1,
     CHR 0x81, CHR 0xD0, CHR 0xBE, CHR 0xD0, CHR 0xBE, CHR 0xD0, CHR 0xB1, CHR 0xD1,
     CHR 0x89, CHR 0xD0, CHR 0xB5, CHR 0xD0, CHR 0xBD, CHR 0xD0, CHR 0xB8, CHR 0xD0,
     CHR 0xB5, CHR 0x2E]"

definition describeImage :: string where
  \<comment> \<open>the prompt used for a photo without caption, line 1504\<close>
  "describeImage =
    [CHR 0xD0, CHR 0x9E, CHR 0xD0, CHR 0xBF, CHR 0xD0, CHR 0xB8, CHR 0xD1, CHR 0x88,
     CHR 0xD0, CHR 0xB8, CHR 0x20, CHR 0xD1, CHR 0x81, CHR 0xD0, CHR 0xBE, CHR 0xD0,
     CHR 0xB4, CHR 0xD0, CHR 0xB5, CHR 0xD1, CHR 0x80, CHR 0xD0, CHR 0xB6, CHR 0xD0,
     CHR 0xB8, CHR 0xD0, CHR 0xBC, CHR 0xD0, CHR 0xBE, CHR 0xD0, CHR 0xB5, CHR 0x20,
     CHR 0xD1, CHR 0x8D, CHR 0xD1, CHR 0x82, CHR 0xD0, CHR 0xBE, CHR 0xD0, CHR 0xB3,
     CHR 0xD0, CHR 0xBE, CHR 0x20, CHR 0xD0, CHR 0xB8, CHR 0xD0, CHR 0xB7, CHR 0xD0,
     CHR 0xBE, CHR 0xD0, CHR 0xB1, CHR 0xD1, CHR 0x80, CHR 0xD0, CHR 0xB0, CHR 0xD0,
     CHR 0xB6, CHR 0xD0, CHR 0xB5, CHR 0xD0, CHR 0xBD, CHR 0xD0, CHR 0xB8, CHR 0xD1,
     CHR 0x8F, CHR 0x2E]"

section \<open>Data model\<close>

text \<open>
  A turn of the conversation is an object \<^verbatim>\<open>{ role, content, date }\<close>; \<open>date\<close> is the
  rendering \<^verbatim>\<open>toLocaleString()\<close> of the moment the turn was written. A memory is an
  object \<^verbatim>\<open>{ text, date }\<close>; its \<^verbatim>\<open>date\<close> field is called \<open>mdate\<close> here.
\<close>

record message =
  role :: string
  content :: string
  date :: string

record memory =
  "text" :: string
  mdate :: string

text \<open>
  \<^verbatim>\<open>session.memories\<close> is a plain object keyed by day. It is modelled by the list of its
  entries in the order in which \<^verbatim>\<open>Object.entries\<close> enumerates them, which for keys that
  are not array indices is the order of insertion; the keys of a JavaScript object are
  unique, which is the property \<open>distinct (map fst m)\<close> of the list. Day keys come from
  timestamps and are never array indices or names of \<^verbatim>\<open>Object.prototype\<close>.
  Assigning \<^verbatim>\<open>memories[k] = v\<close> is \<^const>\<open>AList.update\<close>: an existing key keeps its place,
  a new key goes to the end.

  The middleware (lines 203-227) and \<^verbatim>\<open>loadContext\<close> (lines 150-184) give every session
  its \<^verbatim>\<open>history\<close> array, its \<^verbatim>\<open>memories\<close> object and its two model names before a
  handler runs, so the fields are always present here. The falsy values that the source
  replaces by defaults are the empty string and the number 0.
\<close>

type_synonym memories = "(string \<times> memory) list"

record session =
  history :: "message list"
  memories :: memories
  messageCountSinceSummary :: nat
  maxOutputTokens :: nat
  temperature :: rat
  mainModel :: string
  backupModel :: string
  awaitingMessageDeletionCount :: bool

datatype fragment = Text string | FileData string string

text \<open>
  A JavaScript \<^verbatim>\<open>Date\<close>, as far as the source reads it: the three calendar getters and
  the two renderings, \<^verbatim>\<open>toLocaleString()\<close> in the locale of the process and
  \<^verbatim>\<open>toLocaleDateString('ru-RU')\<close>.
\<close>

record jsDate =
  getDate :: int
  getMonth :: int
  getFullYear :: int
  toLocaleString :: string
  toLocaleDateString :: string

text \<open>
  A thrown value, as far as the source inspects it: \<^verbatim>\<open>error.status\<close>,
  \<^verbatim>\<open>error.message\<close> and \<^verbatim>\<open>error.response.promptFeedback.blockReason\<close> (\<open>None\<close> when a
  link of that chain is missing).
\<close>

record jsError =
  status :: "nat option"
  message :: string
  blockReason :: "string option"

definition newError :: "string \<Rightarrow> jsError" where
  \<comment> \<open>\<^verbatim>\<open>new Error(msg)\<close>\<close>
  "newError msg = \<lparr>status = None, message = msg, blockReason = None\<rparr>"

definition typeError :: jsError where
  \<comment> \<open>what reading a property of \<^verbatim>\<open>undefined\<close> throws\<close>
  "typeError = newError ''TypeError: Cannot read properties of undefined''"

text \<open>
  What \<^verbatim>\<open>generateContent\<close> resolves to: \<open>response\<close> is \<open>None\<close> when
  \<^verbatim>\<open>result.response\<close> is missing, otherwise what the call \<^verbatim>\<open>result.response.text()\<close>
  does (it returns the text or throws); \<open>usedBackupModel\<close> is the tag that the fallback
  sets.
\<close>

record genResult =
  response :: "(jsError + string) option"
  usedBackupModel :: bool

text \<open>
  A provider adapter is an object with the method \<^verbatim>\<open>generateContent(contents)\<close>. The call
  goes to a service outside the program: it is a function of the contents and of the
  state \<open>'w\<close> of the world, it returns or throws, and it leaves a new state of the world.
\<close>

type_synonym 'w model = "fragment list \<Rightarrow> 'w \<Rightarrow> (jsError + genResult) \<times> 'w"

text \<open>
  Everything else the source takes from outside, as parameters:
  \<^item> \<open>Number\<close>: the builtin \<^verbatim>\<open>Number\<close> on strings; \<open>Some n\<close> when the result is the
    integer \<open>n\<close>, \<open>None\<close> for every other result (\<^verbatim>\<open>NaN\<close>, a fraction, an infinity);
  \<^item> \<open>sanitizeHtml\<close>: the library filter with the options of lines 1350-1363, and
    \<open>stripTags\<close>: the same filter with no tag allowed (lines 1499-1502);
  \<^item> \<open>newDate\<close>: \<^verbatim>\<open>new Date()\<close>, the clock read in the current state of the world;
  \<^item> \<open>setTimeout\<close>: awaiting a timer of the given number of milliseconds;
  \<^item> \<open>saveContext\<close>: writing the context file (lines 187-189), which may throw;
  \<^item> \<open>createGeminiModel\<close>: the Gemini adapter for a model name, a token limit and a
    temperature (lines 66-75);
  \<^item> \<open>deepseekCreate\<close>: \<^verbatim>\<open>deepseekClient.chat.completions.create\<close> for a system text, a
    user text, a token limit and a temperature; it returns the content of the first
    choice or throws.
  Console output and the chat transport (the typing indicator, delivery of a reply) are
  left out: a handler's reply is part of its result.
\<close>

record 'w runtime =
  Number :: "string \<Rightarrow> int option"
  sanitizeHtml :: "string \<Rightarrow> string"
  stripTags :: "string \<Rightarrow> string"
  newDate :: "'w \<Rightarrow> jsDate"
  setTimeout :: "nat \<Rightarrow> 'w \<Rightarrow> 'w"
  saveContext :: "'w \<Rightarrow> jsError option \<times> 'w"
  createGeminiModel :: "string \<Rightarrow> nat \<Rightarrow> rat \<Rightarrow> 'w model"
  deepseekCreate :: "string \<Rightarrow> string \<Rightarrow> nat \<Rightarrow> rat \<Rightarrow> 'w \<Rightarrow> (jsError + string) \<times> 'w"

section \<open>The context composer\<close>

definition isMessageFromToday :: "(string \<Rightarrow> int option) \<Rightarrow> jsDate \<Rightarrow> string \<Rightarrow> bool" where
  \<comment> \<open>lines 1277-1287; \<open>today\<close> is the value of \<^verbatim>\<open>new Date()\<close>. A missing piece is
      \<^verbatim>\<open>undefined\<close>, which like \<^verbatim>\<open>NaN\<close> is not \<^verbatim>\<open>===\<close> to any number.\<close>
  "isMessageFromToday num today messageDateString =
     (let parts = map num (jsSplit CHR ''.'' (dayKey messageDateString))
      in elemAt parts 0 = Some (Some (getDate today)) \<and>
         elemAt parts 1 = Some (Some (getMonth today + 1)) \<and>
         elemAt parts 2 = Some (Some (getFullYear today)))"

definition dateStr :: "string \<Rightarrow> string" where
  \<comment> \<open>\<^verbatim>\<open>d ? `(${d})` : ''\<close>, lines 250 and 254\<close>
  "dateStr d = (if d = [] then [] else ''('' @ d @ '')'')"

definition memoryFragment :: "string \<times> memory \<Rightarrow> fragment" where
  \<comment> \<open>line 243\<close>
  "memoryFragment e =
     Text (memoriesFor @ fst e @ '':'' @ [CHR 0x0A] @ text (snd e) @ [CHR 0x0A])"

definition turnFragment :: "string \<Rightarrow> string \<Rightarrow> string \<Rightarrow> fragment" where
  \<comment> \<open>lines 250-251 and 254-255\<close>
  "turnFragment name d body = Text (name @ dateStr d @ '': '' @ body @ [CHR 0x0A])"

definition cue :: fragment where
  \<comment> \<open>line 256\<close>
  "cue = Text (assistantName @ '':'')"

definition buildContents ::
  "(string \<Rightarrow> int option) \<Rightarrow> jsDate \<Rightarrow> message list \<Rightarrow> memories \<Rightarrow> string \<Rightarrow> string \<Rightarrow> string
     \<Rightarrow> fragment list" where
  \<comment> \<open>lines 238-259; \<open>now\<close> is the value of \<^verbatim>\<open>new Date()\<close> that
      \<^verbatim>\<open>isMessageFromToday\<close> reads. \<^verbatim>\<open>slice(-20)\<close> keeps the elements from index
      \<open>max (length - 20) 0\<close> on.\<close>
  "buildContents num now history0 memories0 userName userMessage messageDate =
     (let todayHistory = filter (\<lambda>msg. isMessageFromToday num now (date msg)) history0;
          recentHistory = drop (length todayHistory - 20) todayHistory
      in map memoryFragment memories0
         @ map (\<lambda>message. turnFragment (role message) (date message) (content message))
             recentHistory
         @ [turnFragment userName messageDate userMessage, cue])"

section \<open>Provider adapters and the dispatch engine\<close>

definition createDeepseekModel :: "'w runtime \<Rightarrow> nat \<Rightarrow> rat \<Rightarrow> 'w model" where
  \<comment> \<open>lines 78-111: the fragments that carry a non-empty text are joined, each followed
      by a newline, the whole is trimmed and sent with the persona instruction\<close>
  "createDeepseekModel rt maxTokens temp contents w =
     (let userContent =
            concat (map (\<lambda>item. case item of
                                   Text t \<Rightarrow> (if t = [] then [] else t @ [CHR 0x0A])
                                 | FileData _ _ \<Rightarrow> []) contents)
      in case deepseekCreate rt systemInstruction (trim userContent) maxTokens temp w of
           (Inl e, w') \<Rightarrow> (Inl e, w')
         | (Inr txt, w') \<Rightarrow> (Inr \<lparr>response = Some (Inr txt), usedBackupModel = False\<rparr>, w'))"

definition selectModel :: "'w runtime \<Rightarrow> string \<Rightarrow> nat \<Rightarrow> rat \<Rightarrow> 'w model" where
  \<comment> \<open>the choice of adapter, written twice in the source (lines 1240-1244 and 1246-1254)\<close>
  "selectModel rt name maxTokens temp =
     (if name = ''deepseek-chat'' then createDeepseekModel rt maxTokens temp
      else createGeminiModel rt name maxTokens temp)"

text \<open>
  The loop of \<^verbatim>\<open>generateResponseWithRetry\<close> (lines 1108-1124) with its loop variables
  \<open>attempt\<close> and \<open>delay\<close>. Leaving the loop without a return, which happens only for
  \<open>retries = 0\<close>, makes the function resolve to \<^verbatim>\<open>undefined\<close>: the result \<open>Inr None\<close>.
\<close>

function retryLoop ::
  "'w runtime \<Rightarrow> 'w model \<Rightarrow> fragment list \<Rightarrow> nat \<Rightarrow> nat \<Rightarrow> nat \<Rightarrow> 'w
     \<Rightarrow> (jsError + genResult option) \<times> 'w" where
  "retryLoop rt model contents retries attempt delay w =
     (if attempt \<le> retries then
        (case model contents w of
           (Inr result, w') \<Rightarrow> (Inr (Some result), w')
         | (Inl error, w') \<Rightarrow>
             (if (status error = Some 503 \<or> status error = Some 429) \<and> attempt < retries
              then retryLoop rt model contents retries (attempt + 1) (delay + 1000)
                     (setTimeout rt delay w')
              else (Inl error, w')))
      else (Inr None, w))"
  by pat_completeness auto
termination
  by (relation "measure (\<lambda>(rt, model, contents, retries, attempt, delay, w). retries - attempt)")
     auto

declare retryLoop.simps [simp del]

definition generateResponseWithRetry ::
  "'w runtime \<Rightarrow> 'w model \<Rightarrow> fragment list \<Rightarrow> nat \<Rightarrow> nat \<Rightarrow> 'w
     \<Rightarrow> (jsError + genResult option) \<times> 'w" where
  \<comment> \<open>lines 1101-1125; the defaults \<open>retries = 1\<close> and \<open>initialDelay = 1000\<close> are written
      out at the call that relies on them\<close>
  "generateResponseWithRetry rt model contents retries initialDelay w =
     retryLoop rt model contents retries 1 initialDelay w"

definition generateGeminiResponse ::
  "'w runtime \<Rightarrow> 'w model \<Rightarrow> fragment list \<Rightarrow> 'w \<Rightarrow> (jsError + genResult option) \<times> 'w" where
  \<comment> \<open>lines 1210-1229\<close>
  "generateGeminiResponse rt model contents w =
     (case generateResponseWithRetry rt model contents 3 1000 w of
        (Inr result, w') \<Rightarrow> (Inr result, w')
      | (Inl error, w') \<Rightarrow>
          (if status error = Some 503 then (Inl (newError unavailableMsg), w')
           else if status error = Some 429 then (Inl (newError tooManyMsg), w')
           else if blockReason error = Some ''PROHIBITED_CONTENT''
             then (Inl (newError blockedMsg), w')
           else (Inl error, w')))"

definition mainModelOf :: "'w runtime \<Rightarrow> session \<Rightarrow> 'w model" where
  \<comment> \<open>the adapter bound to \<^verbatim>\<open>mainModel\<close> at lines 1232-1244\<close>
  "mainModelOf rt session0 =
     selectModel rt
       (if mainModel session0 = [] then ''gemini-exp-1206'' else mainModel session0)
       (if maxOutputTokens session0 = 0 then 700 else maxOutputTokens session0)
       (if temperature session0 = 0 then 3 / 2 else temperature session0)"

definition backupModelOf :: "'w runtime \<Rightarrow> session \<Rightarrow> 'w model" where
  \<comment> \<open>the adapter bound to \<^verbatim>\<open>backupModel\<close> at lines 1233-1254\<close>
  "backupModelOf rt session0 =
     selectModel rt
       (if backupModel session0 = [] then ''gemini-1.5-pro-002'' else backupModel session0)
       (if maxOutputTokens session0 = 0 then 700 else maxOutputTokens session0)
       (if temperature session0 = 0 then 3 / 2 else temperature session0)"

definition generateResponseWithBackup ::
  "'w runtime \<Rightarrow> session \<Rightarrow> fragment list \<Rightarrow> 'w \<Rightarrow> (jsError + genResult option) \<times> 'w" where
  \<comment> \<open>lines 1231-1275. Setting the tag on an \<^verbatim>\<open>undefined\<close> result throws inside the inner
      \<^verbatim>\<open>try\<close>, so that case ends in the inner \<^verbatim>\<open>catch\<close> too. \<^verbatim>\<open>cleanupModel\<close> assigns to
      its own parameter and asks for a garbage collection: it has no effect here.\<close>
  "generateResponseWithBackup rt session0 contents w =
     (case generateGeminiResponse rt (mainModelOf rt session0) contents w of
        (Inr result, w') \<Rightarrow> (Inr result, w')
      | (Inl error, w') \<Rightarrow>
          (case generateGeminiResponse rt (backupModelOf rt session0) contents w' of
             (Inr (Some result), w'') \<Rightarrow> (Inr (Some (result\<lparr>usedBackupModel := True\<rparr>)), w'')
           | (Inr None, w'') \<Rightarrow> (Inl error, w'')
           | (Inl backupError, w'') \<Rightarrow> (Inl error, w'')))"

section \<open>Memory consolidation\<close>

definition groupStep :: "(string \<times> message list) list \<Rightarrow> message \<Rightarrow> (string \<times> message list) list" where
  \<comment> \<open>the body of the loop at lines 1092-1096\<close>
  "groupStep groupedMessages msg =
     (let date0 = dayKey (date msg)
      in case map_of groupedMessages date0 of
           None \<Rightarrow> AList.update date0 [msg] groupedMessages
         | Some msgs \<Rightarrow> AList.update date0 (msgs @ [msg]) groupedMessages)"

definition groupMessagesByDay :: "message list \<Rightarrow> (string \<times> message list) list" where
  \<comment> \<open>lines 1089-1099\<close>
  "groupMessagesByDay messages = foldl groupStep [] messages"

definition previousMemoriesText :: "memories \<Rightarrow> string \<Rightarrow> string" where
  \<comment> \<open>lines 1140-1145\<close>
  "previousMemoriesText memories0 date0 =
     concat (map (\<lambda>e. memoriesFor @ fst e @ '':'' @ [CHR 0x0A] @ text (snd e) @ [CHR 0x0A])
               (filter (\<lambda>e. fst e \<noteq> date0) memories0))"

fun joinLines :: "string list \<Rightarrow> string" where
  "joinLines [] = []"
| "joinLines [x] = x"
| "joinLines (x # y # zs) = x @ [CHR 0x0A] @ joinLines (y # zs)"

definition summaryContents :: "memories \<Rightarrow> string \<Rightarrow> message list \<Rightarrow> fragment list" where
  \<comment> \<open>lines 1152-1161\<close>
  "summaryContents memories0 date0 messages =
     (let historyText =
            joinLines (map (\<lambda>msg. role msg @ '' ('' @ date msg @ ''): '' @ content msg) messages);
          prompt = promptHead @ date0 @ promptTail
      in [Text (previousMemories @ [CHR 0x0A] @ previousMemoriesText memories0 date0),
          Text (prompt @ [CHR 0x0A] @ historyText)])"

definition summarizationModel :: "'w runtime \<Rightarrow> 'w model" where
  \<comment> \<open>lines 1204-1208\<close>
  "summarizationModel rt = createGeminiModel rt ''gemini-1.5-flash-8b-001'' 1500 (1 / 2)"

definition needsSummary :: "memories \<Rightarrow> string \<Rightarrow> string \<Rightarrow> bool" where
  \<comment> \<open>the condition at lines 1147-1151\<close>
  "needsSummary memories0 date0 today =
     (case map_of memories0 date0 of
        None \<Rightarrow> True
      | Some m \<Rightarrow> trim (text m) = [] \<or> date0 = today)"

definition summarizeDay ::
  "'w runtime \<Rightarrow> string \<Rightarrow> string \<times> message list \<Rightarrow> memories \<Rightarrow> 'w \<Rightarrow> (jsError + memories) \<times> 'w" where
  \<comment> \<open>one round of the loop at lines 1139-1192, for the group \<open>(date, messages)\<close>\<close>
  "summarizeDay rt today g memories0 w =
     (if needsSummary memories0 (fst g) today then
        (case generateResponseWithRetry rt (summarizationModel rt)
                (summaryContents memories0 (fst g) (snd g)) 1 1000 w of
           (Inl error, w') \<Rightarrow> (Inl error, w')
         | (Inr None, w') \<Rightarrow> (Inl typeError, w')
         | (Inr (Some result), w') \<Rightarrow>
             (case response result of
                None \<Rightarrow> (Inl (newError (noSummaryMsg @ fst g)), w')
              | Some (Inl error) \<Rightarrow> (Inl error, w')
              | Some (Inr summary) \<Rightarrow>
                  (Inr (AList.update (fst g)
                          \<lparr>text = sanitizeHtml rt summary,
                           mdate = toLocaleString (newDate rt w')\<rparr> memories0), w')))
      else (Inr memories0, w))"

fun summarizeDays ::
  "'w runtime \<Rightarrow> string \<Rightarrow> (string \<times> message list) list \<Rightarrow> memories \<Rightarrow> 'w
     \<Rightarrow> jsError option \<times> memories \<times> 'w" where
  "summarizeDays rt today [] memories0 w = (None, memories0, w)"
| "summarizeDays rt today (g # gs) memories0 w =
     (case summarizeDay rt today g memories0 w of
        (Inl error, w') \<Rightarrow> (Some error, memories0, w')
      | (Inr memories1, w') \<Rightarrow> summarizeDays rt today gs memories1 w')"

text \<open>
  How a call of \<^verbatim>\<open>generateSummary\<close> ends: at the early return for an empty history
  (line 1132), after the last statement of the \<^verbatim>\<open>try\<close> block (line 1198), or in the
  \<^verbatim>\<open>catch\<close> block (line 1200) with the error it caught. The function itself never throws.
\<close>

datatype ending = EmptyHistory | Completed | Caught jsError

definition generateSummary :: "'w runtime \<Rightarrow> session \<Rightarrow> 'w \<Rightarrow> session \<times> ending \<times> 'w" where
  \<comment> \<open>lines 1127-1202. \<open>memories\<close> is the session's own object, so the entries written
      before an error stay in the session; \<open>history\<close> is replaced only after the loop.\<close>
  "generateSummary rt session0 w =
     (if history session0 = [] then (session0, EmptyHistory, w)
      else
        (let groupedMessages = groupMessagesByDay (history session0);
             today = toLocaleDateString (newDate rt w)
         in case summarizeDays rt today groupedMessages (memories session0) w of
              (Some error, memories1, w') \<Rightarrow>
                (session0\<lparr>memories := memories1\<rparr>, Caught error, w')
            | (None, memories1, w') \<Rightarrow>
                (let session1 = session0
                       \<lparr>memories := memories1,
                        history := (case map_of groupedMessages today of
                                      None \<Rightarrow> [] | Some messages \<Rightarrow> messages)\<rparr>
                 in case saveContext rt w' of
                      (Some error, w'') \<Rightarrow> (session1, Caught error, w'')
                    | (None, w'') \<Rightarrow> (session1, Completed, w''))))"

section \<open>Handlers\<close>

text \<open>
  What a handler tells the user. The wording of the notices is not modelled; a reply
  that enters the history is.
\<close>

datatype reply =
    SameModel \<comment> \<open>the notice that main and backup model may not be equal\<close>
  | MainModelSet string
  | BackupModelSet string
  | InvalidNumber \<comment> \<open>line 1298\<close>
  | NoHistory \<comment> \<open>line 1302\<close>
  | Deleted int \<comment> \<open>line 1306\<close>
  | Sent string \<comment> \<open>the assistant's reply, handed to \<^verbatim>\<open>sendLongMessage\<close>\<close>

subsection \<open>Choosing the models\<close>

definition setMainModel ::
  "'w runtime \<Rightarrow> string \<Rightarrow> session \<Rightarrow> 'w \<Rightarrow> session \<times> (jsError + reply) \<times> 'w" where
  \<comment> \<open>the body shared by the three handlers at lines 640-710, for their constant
      \<^verbatim>\<open>newMainModel\<close>; an error of \<^verbatim>\<open>saveContext\<close> leaves the handler\<close>
  "setMainModel rt newMainModel session0 w =
     (if newMainModel = backupModel session0 then (session0, Inr SameModel, w)
      else
        (let session1 = session0\<lparr>mainModel := newMainModel\<rparr>
         in case saveContext rt w of
              (Some error, w') \<Rightarrow> (session1, Inl error, w')
            | (None, w') \<Rightarrow> (session1, Inr (MainModelSet newMainModel), w')))"

definition setBackupModel ::
  "'w runtime \<Rightarrow> string \<Rightarrow> session \<Rightarrow> 'w \<Rightarrow> session \<times> (jsError + reply) \<times> 'w" where
  \<comment> \<open>the body shared by the three handlers at lines 713-783\<close>
  "setBackupModel rt newBackupModel session0 w =
     (if newBackupModel = mainModel session0 then (session0, Inr SameModel, w)
      else
        (let session1 = session0\<lparr>backupModel := newBackupModel\<rparr>
         in case saveContext rt w of
              (Some error, w') \<Rightarrow> (session1, Inl error, w')
            | (None, w') \<Rightarrow> (session1, Inr (BackupModelSet newBackupModel), w')))"

definition set_main_model_geminiexp ::
  "'w runtime \<Rightarrow> session \<Rightarrow> 'w \<Rightarrow> session \<times> (jsError + reply) \<times> 'w" where
  "set_main_model_geminiexp rt = setMainModel rt ''gemini-exp-1206''"

definition set_main_model_geminipro ::
  "'w runtime \<Rightarrow> session \<Rightarrow> 'w \<Rightarrow> session \<times> (jsError + reply) \<times> 'w" where
  "set_main_model_geminipro rt = setMainModel rt ''gemini-1.5-pro-002''"

definition set_main_model_deepseek ::
  "'w runtime \<Rightarrow> session \<Rightarrow> 'w \<Rightarrow> session \<times> (jsError + reply) \<times> 'w" where
  "set_main_model_deepseek rt = setMainModel rt ''deepseek-chat''"

definition set_backup_model_geminiexp ::
  "'w runtime \<Rightarrow> session \<Rightarrow> 'w \<Rightarrow> session \<times> (jsError + reply) \<times> 'w" where
  "set_backup_model_geminiexp rt = setBackupModel rt ''gemini-exp-1206''"

definition set_backup_model_geminipro ::
  "'w runtime \<Rightarrow> session \<Rightarrow> 'w \<Rightarrow> session \<times> (jsError + reply) \<times> 'w" where
  "set_backup_model_geminipro rt = setBackupModel rt ''gemini-1.5-pro-002''"

definition set_backup_model_deepseek ::
  "'w runtime \<Rightarrow> session \<Rightarrow> 'w \<Rightarrow> session \<times> (jsError + reply) \<times> 'w" where
  "set_backup_model_deepseek rt = setBackupModel rt ''deepseek-chat''"

subsection \<open>Deleting the last turns\<close>

definition isDigit :: "char \<Rightarrow> bool" where
  "isDigit c = (c \<in> set ''0123456789'')"

definition decimal :: "string \<Rightarrow> int" where
  \<comment> \<open>the value of a string of decimal digits\<close>
  "decimal ds = foldl (\<lambda>n c. 10 * n + (int (of_char c) - 48)) 0 ds"

definition parseInt :: "string \<Rightarrow> int option" where
  \<comment> \<open>\<^verbatim>\<open>parseInt(s, 10)\<close>: leading white space and one sign are skipped, the longest
      run of digits is read, and without a digit the result is \<^verbatim>\<open>NaN\<close> (\<open>None\<close>). The
      exact value stands for the double that JavaScript rounds it to; the handler only
      compares it with 0 and with the length of an array.\<close>
  "parseInt s =
     (let t = trimStart s;
          negative = (case t of [] \<Rightarrow> False | c # _ \<Rightarrow> c = CHR ''-'');
          r = (case t of [] \<Rightarrow> [] | c # cs \<Rightarrow> if c = CHR ''-'' \<or> c = CHR ''+'' then cs else t);
          ds = takeWhile isDigit r
      in if ds = [] then None else Some (if negative then - decimal ds else decimal ds))"

definition deleteLastMessages ::
  "'w runtime \<Rightarrow> string \<Rightarrow> session \<Rightarrow> 'w \<Rightarrow> session \<times> (jsError + reply) \<times> 'w" where
  \<comment> \<open>lines 1293-1312, the text handler while \<^verbatim>\<open>awaitingMessageDeletionCount\<close> is set;
      \<open>messageText\<close> is \<^verbatim>\<open>ctx.message.text\<close>. \<^verbatim>\<open>splice(-number)\<close> removes the elements
      from index \<open>max (length - number) 0\<close> on.\<close>
  "deleteLastMessages rt messageText session0 w =
     (let input = trim messageText;
          number = parseInt input
      in case number of
           None \<Rightarrow> (session0\<lparr>awaitingMessageDeletionCount := False\<rparr>, Inr InvalidNumber, w)
         | Some n \<Rightarrow>
             (if n \<le> 0
                then (session0\<lparr>awaitingMessageDeletionCount := False\<rparr>, Inr InvalidNumber, w)
              else if history session0 = []
                then (session0\<lparr>awaitingMessageDeletionCount := False\<rparr>, Inr NoHistory, w)
              else
                (let session1 = session0
                       \<lparr>history := take (length (history session0) - nat n) (history session0)\<rparr>
                 in case saveContext rt w of
                      (Some error, w') \<Rightarrow> (session1, Inl error, w')
                    | (None, w') \<Rightarrow>
                        (session1\<lparr>awaitingMessageDeletionCount := False\<rparr>, Inr (Deleted n), w'))))"

subsection \<open>Answering a message\<close>

definition orApology :: "string \<Rightarrow> string \<Rightarrow> string" where
  \<comment> \<open>\<^verbatim>\<open>if (!botReply || botReply.trim() === '') botReply = apology\<close>,
      lines 1365-1367, 1556-1558 and 1747-1749\<close>
  "orApology apology botReply =
     (if botReply = [] \<or> trim botReply = [] then apology else botReply)"

definition assistantTurn :: "'w runtime \<Rightarrow> string \<Rightarrow> 'w \<Rightarrow> message" where
  \<comment> \<open>the object pushed at lines 1374-1378, 1567-1571 and 1756-1760\<close>
  "assistantTurn rt botReply w =
     \<lparr>role = assistantName, content = botReply, date = toLocaleString (newDate rt w)\<rparr>"

definition countAndSummarize :: "'w runtime \<Rightarrow> session \<Rightarrow> 'w \<Rightarrow> session \<times> 'w" where
  \<comment> \<open>lines 1380-1385, 1573-1578 and 1762-1767\<close>
  "countAndSummarize rt session0 w =
     (let session1 = session0\<lparr>messageCountSinceSummary := messageCountSinceSummary session0 + 2\<rparr>
      in if messageCountSinceSummary session1 \<ge> 30 then
           (case generateSummary rt session1 w of
              (session2, ending0, w') \<Rightarrow> (session2\<lparr>messageCountSinceSummary := 0\<rparr>, w'))
         else (session1, w))"

definition recordExchange :: "'w runtime \<Rightarrow> message \<Rightarrow> string \<Rightarrow> session \<Rightarrow> 'w \<Rightarrow> session \<times> 'w" where
  \<comment> \<open>the two pushes and the counter, lines 1369-1385, 1560-1578 and 1751-1767\<close>
  "recordExchange rt userTurn botReply session0 w =
     countAndSummarize rt
       (session0\<lparr>history := history session0 @ [userTurn, assistantTurn rt botReply w]\<rparr>) w"

definition textMessage ::
  "'w runtime \<Rightarrow> string \<Rightarrow> string \<Rightarrow> string \<Rightarrow> session \<Rightarrow> 'w \<Rightarrow> session \<times> (jsError + reply) \<times> 'w" where
  \<comment> \<open>lines 1314-1399, the text handler of a private chat. \<open>userName\<close> is
      \<^verbatim>\<open>getUserName(ctx)\<close>, \<open>messageDate\<close> the rendering of the time the message was
      sent. An error is caught by the handler at line 1388, which answers with a notice
      and leaves the session as it was.\<close>
  "textMessage rt userName userMessage messageDate session0 w =
     (let contents = buildContents (Number rt) (newDate rt w) (history session0)
                       (memories session0) userName userMessage messageDate
      in case generateResponseWithBackup rt session0 contents w of
           (Inl error, w1) \<Rightarrow> (session0, Inl error, w1)
         | (Inr None, w1) \<Rightarrow> (session0, Inl typeError, setTimeout rt 1000 w1)
         | (Inr (Some result), w1) \<Rightarrow>
             (let w2 = setTimeout rt 1000 w1
              in case response result of
                   None \<Rightarrow> (session0, Inl (newError noReplyMsg), w2)
                 | Some (Inl error) \<Rightarrow> (session0, Inl error, w2)
                 | Some (Inr txt) \<Rightarrow>
                     (let botReply = orApology textApology
                            (sanitizeHtml rt
                               (if usedBackupModel result then backupTag @ txt else txt))
                      in case recordExchange rt
                                \<lparr>role = userName, content = userMessage, date = messageDate\<rparr>
                                botReply session0 w2 of
                           (session1, w3) \<Rightarrow> (session1, Inr (Sent botReply), w3))))"

definition onMessageText ::
  "'w runtime \<Rightarrow> string \<Rightarrow> string \<Rightarrow> string \<Rightarrow> session \<Rightarrow> 'w \<Rightarrow> session \<times> (jsError + reply) \<times> 'w" where
  \<comment> \<open>lines 1290-1400\<close>
  "onMessageText rt userName messageText messageDate session0 w =
     (if awaitingMessageDeletionCount session0 then deleteLastMessages rt messageText session0 w
      else textMessage rt userName messageText messageDate session0 w)"

definition mediaModel :: "'w runtime \<Rightarrow> session \<Rightarrow> 'w model" where
  \<comment> \<open>\<^verbatim>\<open>userModel\<close>, lines 1451-1457 and 1679-1685\<close>
  "mediaModel rt session0 =
     createGeminiModel rt ''gemini-1.5-pro-002''
       (if maxOutputTokens session0 = 0 then 700 else maxOutputTokens session0)
       (if temperature session0 = 0 then 3 / 2 else temperature session0)"

definition mediaReply ::
  "'w runtime \<Rightarrow> string \<Rightarrow> message \<Rightarrow> fragment list \<Rightarrow> session \<Rightarrow> 'w
     \<Rightarrow> session \<times> (jsError + reply) \<times> 'w" where
  \<comment> \<open>lines 1527-1578 and 1718-1767, which differ in the apology and in the user turn\<close>
  "mediaReply rt apology userTurn contents session0 w =
     (case generateGeminiResponse rt (mediaModel rt session0) contents w of
        (Inl error, w1) \<Rightarrow> (session0, Inl error, w1)
      | (Inr None, w1) \<Rightarrow> (session0, Inl typeError, setTimeout rt 1000 w1)
      | (Inr (Some result), w1) \<Rightarrow>
          (let w2 = setTimeout rt 1000 w1
           in case response result of
                None \<Rightarrow> (session0, Inl (newError noReplyMsg), w2)
              | Some (Inl error) \<Rightarrow> (session0, Inl error, w2)
              | Some (Inr txt) \<Rightarrow>
                  (let botReply = orApology apology (sanitizeHtml rt txt)
                   in case recordExchange rt userTurn botReply session0 w2 of
                        (session1, w3) \<Rightarrow> (session1, Inr (Sent botReply), w3))))"

definition photoMessage ::
  "'w runtime \<Rightarrow> string \<Rightarrow> string \<Rightarrow> string \<Rightarrow> string \<Rightarrow> string \<Rightarrow> session \<Rightarrow> 'w
     \<Rightarrow> session \<times> (jsError + reply) \<times> 'w" where
  \<comment> \<open>lines 1497-1598, the photo handler once the image is staged: \<open>caption\<close> is
      \<^verbatim>\<open>ctx.message.caption || ''\<close>, \<open>fileUri\<close> what the upload returned, \<open>w\<close> the world
      after the upload. The earlier steps return or throw without touching the session.\<close>
  "photoMessage rt caption mimeType fileUri userName messageDate session0 w =
     (let prompt = (if trim caption \<noteq> [] then stripTags rt (trim caption) else describeImage);
          contents = buildContents (Number rt) (newDate rt w) (history session0)
                       (memories session0) userName prompt messageDate
                     @ [FileData mimeType fileUri]
      in mediaReply rt photoApology
           \<lparr>role = userName,
            content = (if caption \<noteq> [] then photoWithCaption @ caption @ [CHR 0x22]
                       else photoNoCaption),
            date = messageDate\<rparr>
           contents session0 w)"

definition audioMessage ::
  "'w runtime \<Rightarrow> string \<Rightarrow> string \<Rightarrow> string \<Rightarrow> string \<Rightarrow> session \<Rightarrow> 'w
     \<Rightarrow> session \<times> (jsError + reply) \<times> 'w" where
  \<comment> \<open>lines 1698-1788, the voice and audio handler once the recording is staged\<close>
  "audioMessage rt mimeType fileUri userName messageDate session0 w =
     (let contents = buildContents (Number rt) (newDate rt w) (history session0)
                       (memories session0) userName audioSent messageDate
                     @ [FileData mimeType fileUri]
      in mediaReply rt audioApology
           \<lparr>role = userName, content = audioSent, date = messageDate\<rparr>
           contents session0 w)"

section \<open>A concrete runtime\<close>

text \<open>
  The theorems below hold for every runtime. To run the definitions on concrete inputs
  this section fixes one: the state of the world is the pair of the number of provider
  calls made so far and the number of milliseconds spent waiting; a Gemini adapter
  answers as a given table says, from its model name and the number of calls made
  before; the clock shows 3 November 2026 and the second of its rendering advances with
  the calls; the filters return their input; writing the context file succeeds.
\<close>

definition digitsNumber :: "string \<Rightarrow> int option" where
  \<comment> \<open>agrees with \<^verbatim>\<open>Number\<close> on the strings of decimal digits (\<^verbatim>\<open>Number('')\<close> is 0)\<close>
  "digitsNumber s = (if list_all isDigit s then Some (decimal s) else None)"

type_synonym world = "nat \<times> nat"

definition nov3 :: jsDate where
  "nov3 = \<lparr>getDate = 3, getMonth = 10, getFullYear = 2026,
            toLocaleString = ''03.11.2026, 10:00:00'', toLocaleDateString = ''03.11.2026''\<rparr>"

definition nov4 :: jsDate where
  "nov4 = \<lparr>getDate = 4, getMonth = 10, getFullYear = 2026,
            toLocaleString = ''04.11.2026, 10:00:00'', toLocaleDateString = ''04.11.2026''\<rparr>"

definition clockAt :: "world \<Rightarrow> jsDate" where
  "clockAt w = nov3\<lparr>toLocaleString := ''03.11.2026, 10:00:0'' @ [''0123456789'' ! (fst w mod 10)]\<rparr>"

definition scripted :: "(string \<Rightarrow> nat \<Rightarrow> jsError + genResult) \<Rightarrow> world runtime" where
  "scripted answers =
     \<lparr>Number = digitsNumber,
      sanitizeHtml = (\<lambda>s. s),
      stripTags = (\<lambda>s. s),
      newDate = clockAt,
      setTimeout = (\<lambda>ms w. (fst w, snd w + ms)),
      saveContext = (\<lambda>w. (None, w)),
      createGeminiModel = (\<lambda>name maxTokens temp contents w. (answers name (fst w), (Suc (fst w), snd w))),
      deepseekCreate = (\<lambda>sys user maxTokens temp w. (Inl (newError ''offline''), w))\<rparr>"

definition failure :: "nat \<Rightarrow> jsError + genResult" where
  \<comment> \<open>a provider error with the given HTTP status\<close>
  "failure code = Inl \<lparr>status = Some code, message = ''request failed'', blockReason = None\<rparr>"

definition answer :: "string \<Rightarrow> jsError + genResult" where
  \<comment> \<open>a provider result with the given text\<close>
  "answer txt = Inr \<lparr>response = Some (Inr txt), usedBackupModel = False\<rparr>"

definition script ::
  "(jsError + genResult) list \<Rightarrow> (jsError + genResult) \<Rightarrow> string \<Rightarrow> nat \<Rightarrow> jsError + genResult" where
  \<comment> \<open>a provider that answers its first calls as listed and every later call with \<open>rest\<close>\<close>
  "script outcomes rest name n = (if n < length outcomes then outcomes ! n else rest)"

definition byName ::
  "(jsError + genResult) \<Rightarrow> (jsError + genResult) \<Rightarrow> string \<Rightarrow> nat \<Rightarrow> jsError + genResult" where
  \<comment> \<open>a provider that answers \<open>main\<close> under the default main model name and \<open>other\<close>
      under every other name\<close>
  "byName main other name n = (if name = ''gemini-exp-1206'' then main else other)"

definition said :: "string \<Rightarrow> string \<Rightarrow> message" where
  \<comment> \<open>a turn of the user \<^verbatim>\<open>@ann\<close>\<close>
  "said d body = \<lparr>role = ''@ann'', content = body, date = d\<rparr>"

definition freshSession :: session where
  \<comment> \<open>the session that the middleware creates, lines 210-218\<close>
  "freshSession =
     \<lparr>history = [], memories = [], messageCountSinceSummary = 0, maxOutputTokens = 700,
      temperature = 3 / 2, mainModel = ''gemini-exp-1206'', backupModel = ''gemini-1.5-pro-002'',
      awaitingMessageDeletionCount = False\<rparr>"

section \<open>Facts about the dispatch engine\<close>

lemma retryLoop_success:
  "attempt \<le> retries \<Longrightarrow> model c w = (Inr r, w') \<Longrightarrow>
   retryLoop rt model c retries attempt delay w = (Inr (Some r), w')"
  by (subst retryLoop.simps) simp

lemma retryLoop_retry:
  "attempt < retries \<Longrightarrow> model c w = (Inl e, w') \<Longrightarrow> status e = Some 503 \<or> status e = Some 429 \<Longrightarrow>
   retryLoop rt model c retries attempt delay w =
   retryLoop rt model c retries (attempt + 1) (delay + 1000) (setTimeout rt delay w')"
  by (subst retryLoop.simps) auto

lemma retryLoop_throw:
  "attempt \<le> retries \<Longrightarrow> model c w = (Inl e, w') \<Longrightarrow>
   \<not> ((status e = Some 503 \<or> status e = Some 429) \<and> attempt < retries) \<Longrightarrow>
   retryLoop rt model c retries attempt delay w = (Inl e, w')"
  by (subst retryLoop.simps) auto

lemma retryLoop_always_fails:
  assumes "\<forall>w. \<exists>e w'. model c w = (Inl e, w')"
  shows "attempt \<le> retries \<Longrightarrow> \<exists>e w'. retryLoop rt model c retries attempt delay w = (Inl e, w')"
proof (induction "retries - attempt" arbitrary: attempt delay w)
  case 0
  obtain e w' where m: "model c w = (Inl e, w')"
    using assms by blast
  from 0 have "\<not> attempt < retries" by simp
  with 0 m show ?case
    using retryLoop_throw [of attempt retries model c w e w' rt delay] by blast
next
  case (Suc n)
  obtain e w' where m: "model c w = (Inl e, w')"
    using assms by blast
  show ?case
  proof (cases "status e = Some 503 \<or> status e = Some 429")
    case True
    from Suc have lt: "attempt < retries" by simp
    have "n = retries - (attempt + 1)" using Suc by simp
    moreover have "attempt + 1 \<le> retries" using lt by simp
    ultimately obtain e' w'' where
      "retryLoop rt model c retries (attempt + 1) (delay + 1000) (setTimeout rt delay w') = (Inl e', w'')"
      using Suc.hyps(1) by blast
    with lt m True show ?thesis
      using retryLoop_retry [of attempt retries model c w e w' rt delay] by simp
  next
    case False
    with Suc m show ?thesis
      using retryLoop_throw [of attempt retries model c w e w' rt delay] by simp
  qed
qed

lemma gemini_always_fails:
  assumes "\<forall>w. \<exists>e w'. model c w = (Inl e, w')"
  shows "\<exists>e w'. generateGeminiResponse rt model c w = (Inl e, w')"
proof -
  obtain e w' where "generateResponseWithRetry rt model c 3 1000 w = (Inl e, w')"
    using assms retryLoop_always_fails [of model c 1 3 rt 1000 w]
    by (auto simp: generateResponseWithRetry_def)
  then show ?thesis
    by (simp add: generateGeminiResponse_def)
qed

lemma gemini_first_success:
  "model c w = (Inr r, w') \<Longrightarrow> generateGeminiResponse rt model c w = (Inr (Some r), w')"
  by (simp add: generateGeminiResponse_def generateResponseWithRetry_def retryLoop_success)

section \<open>Facts about grouping and consolidation\<close>

lemma map_of_groupStep:
  "map_of (groupStep g m) d =
     (if dayKey (date m) = d
      then Some ((case map_of g d of None \<Rightarrow> [] | Some xs \<Rightarrow> xs) @ [m])
      else map_of g d)"
  by (auto simp: groupStep_def Let_def update_conv' split: option.splits)

lemma map_of_foldl_groupStep:
  "map_of (foldl groupStep g ms) d =
     (if filter (\<lambda>m. dayKey (date m) = d) ms = [] then map_of g d
      else Some ((case map_of g d of None \<Rightarrow> [] | Some xs \<Rightarrow> xs)
                 @ filter (\<lambda>m. dayKey (date m) = d) ms))"
proof (induction ms arbitrary: g)
  case Nil
  then show ?case by simp
next
  case (Cons m ms)
  show ?case
    by (simp add: Cons.IH map_of_groupStep split: option.splits)
qed

lemma map_of_groupMessagesByDay:
  "map_of (groupMessagesByDay h) d =
     (if filter (\<lambda>m. dayKey (date m) = d) h = [] then None
      else Some (filter (\<lambda>m. dayKey (date m) = d) h))"
  by (simp add: groupMessagesByDay_def map_of_foldl_groupStep)

lemma keys_groupMessagesByDay:
  "fst ` set (groupMessagesByDay h) = (\<lambda>m. dayKey (date m)) ` set h"
proof -
  have "d \<in> fst ` set (groupMessagesByDay h) \<longleftrightarrow> d \<in> (\<lambda>m. dayKey (date m)) ` set h" for d
  proof -
    have "d \<in> fst ` set (groupMessagesByDay h) \<longleftrightarrow> map_of (groupMessagesByDay h) d \<noteq> None"
      by (simp add: map_of_eq_None_iff)
    also have "\<dots> \<longleftrightarrow> filter (\<lambda>m. dayKey (date m) = d) h \<noteq> []"
      by (simp add: map_of_groupMessagesByDay)
    also have "\<dots> \<longleftrightarrow> d \<in> (\<lambda>m. dayKey (date m)) ` set h"
      by (auto simp: filter_empty_conv)
    finally show ?thesis .
  qed
  then show ?thesis by blast
qed

lemma summarizeDay_cases:
  assumes "summarizeDay rt today g m w = (Inr m', w')"
  shows "m' = m \<and> \<not> needsSummary m (fst g) today \<and> w' = w
       \<or> (\<exists>mem. m' = AList.update (fst g) mem m \<and> needsSummary m (fst g) today)"
  using assms
  by (auto simp: summarizeDay_def split: if_splits prod.splits sum.splits option.splits)

lemma needsSummary_present:
  "\<not> needsSummary m d today \<Longrightarrow> \<exists>e. map_of m d = Some e \<and> trim (text e) \<noteq> [] \<and> d \<noteq> today"
  by (auto simp: needsSummary_def split: option.splits)

lemma summarizeDay_other:
  assumes "summarizeDay rt today g m w = (Inr m', w')" and "d \<noteq> fst g"
  shows "map_of m' d = map_of m d"
  using summarizeDay_cases [OF assms(1)] assms(2) by (auto simp: update_conv')

lemma summarizeDay_own:
  assumes "summarizeDay rt today g m w = (Inr m', w')"
  shows "map_of m' (fst g) \<noteq> None"
  using summarizeDay_cases [OF assms] needsSummary_present [of m "fst g" today]
  by (auto simp: update_conv')

lemma summarizeDay_distinct:
  assumes "summarizeDay rt today g m w = (Inr m', w')" and "distinct (map fst m)"
  shows "distinct (map fst m')"
  using summarizeDay_cases [OF assms(1)] assms(2) by (auto simp: distinct_update)

lemma summarizeDay_keys:
  assumes "summarizeDay rt today g m w = (Inr m', w')" and "fst g \<in> fst ` set m"
  shows "map fst m' = map fst m"
  using summarizeDay_cases [OF assms(1)] assms(2)
  by (elim disjE exE conjE) (simp_all add: update_keys)

lemma summarizeDay_dom:
  assumes "summarizeDay rt today g m w = (Inr m', w')"
  shows "fst ` set m \<subseteq> fst ` set m'"
  using summarizeDay_cases [OF assms(1)]
  by (elim disjE exE conjE) (simp_all add: dom_update subset_insertI)

lemma summarizeDays_other:
  "summarizeDays rt today gs m w = (r, m', w') \<Longrightarrow> d \<notin> fst ` set gs \<Longrightarrow> map_of m' d = map_of m d"
proof (induction gs arbitrary: m w)
  case Nil
  then show ?case by simp
next
  case (Cons g gs)
  show ?case
  proof (cases "summarizeDay rt today g m w")
    case (Pair x w1)
    show ?thesis
    proof (cases x)
      case (Inl e)
      with Pair Cons.prems show ?thesis by simp
    next
      case (Inr m1)
      with Pair Cons.prems have "summarizeDays rt today gs m1 w1 = (r, m', w')" by simp
      then have "map_of m' d = map_of m1 d"
        using Cons.IH Cons.prems(2) by simp
      moreover have "map_of m1 d = map_of m d"
        using summarizeDay_other [of rt today g m w m1 w1 d] Pair Inr Cons.prems(2) by simp
      ultimately show ?thesis by simp
    qed
  qed
qed

lemma summarizeDays_done:
  "summarizeDays rt today gs m w = (None, m', w') \<Longrightarrow>
   (\<forall>g \<in> set gs. map_of m' (fst g) \<noteq> None) \<and> fst ` set m \<subseteq> fst ` set m' \<and>
   (distinct (map fst m) \<longrightarrow> distinct (map fst m')) \<and>
   (fst ` set gs \<subseteq> fst ` set m \<longrightarrow> map fst m' = map fst m)"
proof (induction gs arbitrary: m w)
  case Nil
  then show ?case by simp
next
  case (Cons g gs)
  show ?case
  proof (cases "summarizeDay rt today g m w")
    case (Pair x w1)
    show ?thesis
    proof (cases x)
      case (Inl e)
      with Pair Cons.prems show ?thesis by simp
    next
      case (Inr m1)
      with Pair have step: "summarizeDay rt today g m w = (Inr m1, w1)" by simp
      with Cons.prems have run: "summarizeDays rt today gs m1 w1 = (None, m', w')" by simp
      note ih = Cons.IH [OF run]
      have sub: "fst ` set m \<subseteq> fst ` set m1" by (rule summarizeDay_dom [OF step])
      have "fst g \<in> fst ` set m1"
        using summarizeDay_own [OF step] by (simp add: map_of_eq_None_iff)
      then have own: "map_of m' (fst g) \<noteq> None"
        using ih by (auto simp: map_of_eq_None_iff)
      have keys: "map fst m' = map fst m" if "fst ` set (g # gs) \<subseteq> fst ` set m"
      proof -
        from that have "map fst m1 = map fst m"
          using summarizeDay_keys [OF step] by simp
        moreover from that have "fst ` set gs \<subseteq> fst ` set m" by simp
        then have "fst ` set gs \<subseteq> fst ` set m1" using sub by (rule order_trans)
        ultimately show ?thesis using ih by simp
      qed
      show ?thesis
      proof (intro conjI impI ballI)
        fix g' assume "g' \<in> set (g # gs)"
        then show "map_of m' (fst g') \<noteq> None" using own ih by auto
      next
        have "fst ` set m1 \<subseteq> fst ` set m'" using ih by simp
        with sub show "fst ` set m \<subseteq> fst ` set m'" by (rule order_trans)
      next
        assume "distinct (map fst m)"
        then have "distinct (map fst m1)" using summarizeDay_distinct [OF step] by simp
        then show "distinct (map fst m')" using ih by simp
      next
        assume "fst ` set (g # gs) \<subseteq> fst ` set m"
        then show "map fst m' = map fst m" by (rule keys)
      qed
    qed
  qed
qed

lemma summarizeDays_keys:
  "summarizeDays rt today gs m w = (r, m', w') \<Longrightarrow> fst ` set gs \<subseteq> fst ` set m \<Longrightarrow>
   map fst m' = map fst m"
proof (induction gs arbitrary: m w)
  case Nil
  then show ?case by simp
next
  case (Cons g gs)
  show ?case
  proof (cases "summarizeDay rt today g m w")
    case (Pair x w1)
    show ?thesis
    proof (cases x)
      case (Inl e)
      with Pair Cons.prems show ?thesis by simp
    next
      case (Inr m1)
      with Pair have step: "summarizeDay rt today g m w = (Inr m1, w1)" by simp
      with Cons.prems have run: "summarizeDays rt today gs m1 w1 = (r, m', w')" by simp
      have k1: "map fst m1 = map fst m"
        using summarizeDay_keys [OF step] Cons.prems(2) by simp
      then have "fst ` set m1 = fst ` set m"
        by (metis list.set_map)
      with Cons.prems(2) have "fst ` set gs \<subseteq> fst ` set m1" by simp
      with run k1 show ?thesis using Cons.IH by simp
    qed
  qed
qed

lemma summarizeDays_append:
  "summarizeDays rt today (gs1 @ gs2) m w =
     (case summarizeDays rt today gs1 m w of
        (None, m1, w1) \<Rightarrow> summarizeDays rt today gs2 m1 w1
      | (Some e, m1, w1) \<Rightarrow> (Some e, m1, w1))"
  by (induction gs1 arbitrary: m w) (auto split: prod.splits sum.splits option.splits)

lemma generateSummary_Completed:
  assumes "generateSummary rt s w = (s', Completed, w')"
  shows "history s \<noteq> []"
    and "\<exists>w1. summarizeDays rt (toLocaleDateString (newDate rt w)) (groupMessagesByDay (history s))
            (memories s) w = (None, memories s', w1)"
    and "history s' = filter (\<lambda>t. dayKey (date t) = toLocaleDateString (newDate rt w)) (history s)"
  using assms
  by (auto simp: generateSummary_def Let_def map_of_groupMessagesByDay
           split: if_splits prod.splits option.splits)

lemma generateSummary_empty:
  "history s = [] \<Longrightarrow> generateSummary rt s w = (s, EmptyHistory, w)"
  by (simp add: generateSummary_def)

lemma generateSummary_loop:
  assumes "generateSummary rt s w = (s', e, w')" and "history s \<noteq> []"
  shows "\<exists>r w1. summarizeDays rt (toLocaleDateString (newDate rt w))
            (groupMessagesByDay (history s)) (memories s) w = (r, memories s', w1)"
  using assms
  by (auto simp: generateSummary_def Let_def split: if_splits prod.splits option.splits)

lemma generateSummary_ending:
  "generateSummary rt s w = (s', e, w') \<Longrightarrow> history s \<noteq> [] \<Longrightarrow> e \<noteq> EmptyHistory"
  by (auto simp: generateSummary_def Let_def split: prod.splits option.splits)

lemma one_entry:
  "distinct (map fst xs) \<Longrightarrow> k \<in> fst ` set xs \<Longrightarrow> length (filter (\<lambda>e. fst e = k) xs) = 1"
proof (induction xs)
  case Nil
  then show ?case by simp
next
  case (Cons x xs)
  show ?case
  proof (cases "fst x = k")
    case True
    with Cons.prems have "k \<notin> fst ` set xs" by auto
    then have "filter (\<lambda>e. fst e = k) xs = []"
      by (auto simp: filter_empty_conv)
    with True show ?thesis by simp
  next
    case False
    with Cons show ?thesis by auto
  qed
qed

section \<open>Facts about the handlers\<close>

lemma orApology_nonempty: "apology \<noteq> [] \<Longrightarrow> orApology apology raw \<noteq> []"
  by (simp add: orApology_def)

lemma apologies_nonempty: "textApology \<noteq> []" "photoApology \<noteq> []" "audioApology \<noteq> []"
  by (simp_all add: textApology_def photoApology_def audioApology_def)

lemma recordExchange_unfold:
  "recordExchange rt userTurn botReply s w =
     countAndSummarize rt
       (s\<lparr>history := history s @
            [userTurn, \<lparr>role = assistantName, content = botReply,
                        date = toLocaleString (newDate rt w)\<rparr>]\<rparr>) w"
  by (simp add: recordExchange_def assistantTurn_def)

lemma photoMessage_media:
  "photoMessage rt caption mimeType fileUri userName messageDate s w =
     mediaReply rt photoApology
       \<lparr>role = userName,
        content = (if caption \<noteq> [] then photoWithCaption @ caption @ [CHR 0x22] else photoNoCaption),
        date = messageDate\<rparr>
       (buildContents (Number rt) (newDate rt w) (history s) (memories s) userName
          (if trim caption \<noteq> [] then stripTags rt (trim caption) else describeImage) messageDate
        @ [FileData mimeType fileUri]) s w"
  by (simp add: photoMessage_def Let_def)

lemma audioMessage_media:
  "audioMessage rt mimeType fileUri userName messageDate s w =
     mediaReply rt audioApology \<lparr>role = userName, content = audioSent, date = messageDate\<rparr>
       (buildContents (Number rt) (newDate rt w) (history s) (memories s) userName audioSent
          messageDate @ [FileData mimeType fileUri]) s w"
  by (simp add: audioMessage_def Let_def)

lemma mediaReply_cases:
  assumes "mediaReply rt apology userTurn contents s w = (s', r, w')"
  shows "(\<exists>e. r = Inl e \<and> s' = s) \<or>
         (\<exists>(result :: genResult) txt w2. response result = Some (Inr txt) \<and>
            r = Inr (Sent (orApology apology (sanitizeHtml rt txt))) \<and>
            recordExchange rt userTurn (orApology apology (sanitizeHtml rt txt)) s w2 = (s', w'))"
proof (cases "generateGeminiResponse rt (mediaModel rt s) contents w")
  case (Pair x w1)
  show ?thesis
  proof (cases x)
    case (Inl e)
    with Pair assms show ?thesis by (auto simp: mediaReply_def)
  next
    case (Inr ro)
    show ?thesis
    proof (cases ro)
      case None
      with Pair Inr assms show ?thesis by (auto simp: mediaReply_def)
    next
      case (Some result)
      show ?thesis
      proof (cases "response result")
        case None
        with Pair Inr Some assms show ?thesis by (auto simp: mediaReply_def)
      next
        case (Some t)
        show ?thesis
        proof (cases t)
          case (Inl e)
          with Pair Inr \<open>ro = Some result\<close> Some assms show ?thesis
            by (auto simp: mediaReply_def)
        next
          case (Inr body)
          with Pair \<open>x = Inr ro\<close> \<open>ro = Some result\<close> Some assms
          have a: "r = Inr (Sent (orApology apology (sanitizeHtml rt body)))"
            and b: "recordExchange rt userTurn (orApology apology (sanitizeHtml rt body)) s
                  (setTimeout rt 1000 w1) = (s', w')"
            by (auto simp: mediaReply_def Let_def split: prod.splits)
          from Some Inr have c: "response result = Some (Inr body)" by simp
          have "\<exists>(result :: genResult) body w2. response result = Some (Inr body) \<and>
              r = Inr (Sent (orApology apology (sanitizeHtml rt body))) \<and>
              recordExchange rt userTurn (orApology apology (sanitizeHtml rt body)) s w2 = (s', w')"
            using a b c by blast
          then show ?thesis by (rule disjI2)
        qed
      qed
    qed
  qed
qed

lemma textMessage_cases:
  assumes "textMessage rt userName userMessage messageDate s w = (s', r, w')"
  shows "(\<exists>e. r = Inl e \<and> s' = s) \<or>
         (\<exists>(result :: genResult) txt w2. response result = Some (Inr txt) \<and>
            r = Inr (Sent (orApology textApology
                   (sanitizeHtml rt (if usedBackupModel result then backupTag @ txt else txt)))) \<and>
            recordExchange rt \<lparr>role = userName, content = userMessage, date = messageDate\<rparr>
              (orApology textApology
                 (sanitizeHtml rt (if usedBackupModel result then backupTag @ txt else txt)))
              s w2 = (s', w'))"
proof (cases "generateResponseWithBackup rt s
        (buildContents (Number rt) (newDate rt w) (history s) (memories s)
           userName userMessage messageDate) w")
  case (Pair x w1)
  show ?thesis
  proof (cases x)
    case (Inl e)
    with Pair assms show ?thesis by (auto simp: textMessage_def)
  next
    case (Inr ro)
    show ?thesis
    proof (cases ro)
      case None
      with Pair Inr assms show ?thesis by (auto simp: textMessage_def)
    next
      case (Some result)
      show ?thesis
      proof (cases "response result")
        case None
        with Pair Inr Some assms show ?thesis by (auto simp: textMessage_def)
      next
        case (Some t)
        show ?thesis
        proof (cases t)
          case (Inl e)
          with Pair Inr \<open>ro = Some result\<close> Some assms show ?thesis
            by (auto simp: textMessage_def)
        next
          case (Inr body)
          with Pair \<open>x = Inr ro\<close> \<open>ro = Some result\<close> Some assms
          have a: "r = Inr (Sent (orApology textApology
                   (sanitizeHtml rt (if usedBackupModel result then backupTag @ body else body))))"
            and b: "recordExchange rt \<lparr>role = userName, content = userMessage, date = messageDate\<rparr>
                  (orApology textApology
                     (sanitizeHtml rt (if usedBackupModel result then backupTag @ body else body)))
                  s (setTimeout rt 1000 w1) = (s', w')"
            by (auto simp: textMessage_def Let_def split: prod.splits)
          from Some Inr have c: "response result = Some (Inr body)" by simp
          have "\<exists>(result :: genResult) body w2. response result = Some (Inr body) \<and>
              r = Inr (Sent (orApology textApology
                   (sanitizeHtml rt (if usedBackupModel result then backupTag @ body else body)))) \<and>
              recordExchange rt \<lparr>role = userName, content = userMessage, date = messageDate\<rparr>
                  (orApology textApology
                     (sanitizeHtml rt (if usedBackupModel result then backupTag @ body else body)))
                  s w2 = (s', w')"
            using a b c by blast
          then show ?thesis by (rule disjI2)
        qed
      qed
    qed
  qed
qed

section \<open>Evaluation on concrete inputs\<close>

lemmas run_defs = scripted_def script_def byName_def failure_def answer_def freshSession_def
  clockAt_def nov3_def nov4_def said_def newError_def
  trim_def trimStart_def trimEnd_def whiteSpace_def wsLength_def dayKey_def
  generateResponseWithRetry_def retryLoop.simps generateGeminiResponse_def
  generateResponseWithBackup_def mainModelOf_def backupModelOf_def selectModel_def
  groupMessagesByDay_def groupStep_def summarizeDay_def needsSummary_def
  summarizationModel_def generateSummary_def Let_def

lemmas composer_defs = buildContents_def isMessageFromToday_def dayKey_def elemAt_def
  digitsNumber_def isDigit_def decimal_def nov3_def nov4_def said_def

lemmas handler_defs = onMessageText_def deleteLastMessages_def parseInt_def isDigit_def
  decimal_def textMessage_def photoMessage_def audioMessage_def mediaReply_def mediaModel_def
  buildContents_def recordExchange_def countAndSummarize_def assistantTurn_def orApology_def

section \<open>The claims\<close>

subsection \<open>C1: what consolidation leaves behind\<close>

text \<open>
  Claim C1. When \<^verbatim>\<open>generateSummary\<close> completes (it reaches the end of its \<^verbatim>\<open>try\<close> block,
  or returns at once because the history is empty), every turn left in \<open>history\<close> has
  a timestamp whose part before the first comma is the current day as
  \<^verbatim>\<open>toLocaleDateString('ru-RU')\<close> renders it; every day that has a turn in the history
  before the call has exactly one entry in \<open>memories\<close> afterwards; and a day without a
  turn in that history gets no entry from the call: what \<open>memories\<close> holds for it is what
  it held before. The second part holds for every day with a turn, the current day
  included, so in particular for the days before today.
\<close>

theorem generateSummary_today_only_one_memory_per_day:
  assumes "generateSummary rt s w = (s', e, w')"
    and "e = Completed \<or> e = EmptyHistory"
    and "distinct (map fst (memories s))"
  shows "(\<forall>t \<in> set (history s'). dayKey (date t) = toLocaleDateString (newDate rt w)) \<and>
         (\<forall>t \<in> set (history s).
            length (filter (\<lambda>entry. fst entry = dayKey (date t)) (memories s')) = 1) \<and>
         (\<forall>d. d \<notin> (\<lambda>t. dayKey (date t)) ` set (history s)
            \<longrightarrow> map_of (memories s') d = map_of (memories s) d)"
proof (cases "history s = []")
  case True
  with assms(1) have "s' = s" by (simp add: generateSummary_empty)
  with True show ?thesis by simp
next
  case False
  with assms(1,2) have c: "generateSummary rt s w = (s', Completed, w')"
    using generateSummary_ending [of rt s w s' e w'] by auto
  let ?today = "toLocaleDateString (newDate rt w)"
  let ?gs = "groupMessagesByDay (history s)"
  from generateSummary_Completed(2) [OF c] obtain w1 where
    run: "summarizeDays rt ?today ?gs (memories s) w = (None, memories s', w1)" by blast
  note fin = summarizeDays_done [OF run]
  have h: "history s' = filter (\<lambda>t. dayKey (date t) = ?today) (history s)"
    by (rule generateSummary_Completed(3) [OF c])
  have d: "distinct (map fst (memories s'))" using fin assms(3) by simp
  show ?thesis
  proof (intro conjI ballI allI impI)
    fix t assume "t \<in> set (history s')"
    then show "dayKey (date t) = ?today" by (simp add: h)
  next
    fix t assume "t \<in> set (history s)"
    then have "dayKey (date t) \<in> fst ` set ?gs"
      by (simp add: keys_groupMessagesByDay)
    then obtain g where "g \<in> set ?gs" and "fst g = dayKey (date t)" by auto
    then have "map_of (memories s') (dayKey (date t)) \<noteq> None" using fin by auto
    then have "dayKey (date t) \<in> fst ` set (memories s')"
      by (simp add: map_of_eq_None_iff)
    with d show "length (filter (\<lambda>entry. fst entry = dayKey (date t)) (memories s')) = 1"
      by (rule one_entry)
  next
    fix d assume "d \<notin> (\<lambda>t. dayKey (date t)) ` set (history s)"
    then have "d \<notin> fst ` set ?gs" by (simp add: keys_groupMessagesByDay)
    with run show "map_of (memories s') d = map_of (memories s) d"
      by (rule summarizeDays_other)
  qed
qed

theorem generateSummary_today_only_one_memory_per_day_witness:
  "generateSummary (scripted (script [] (answer ''summary'')))
     (freshSession\<lparr>history := [said ''01.11.2026, 09:00:00'' ''hello'',
                                 said ''03.11.2026, 09:00:00'' ''again'']\<rparr>) (0, 0)
   = (freshSession\<lparr>history := [said ''03.11.2026, 09:00:00'' ''again''],
        memories := [(''01.11.2026'', \<lparr>text = ''summary'', mdate = ''03.11.2026, 10:00:01''\<rparr>),
                     (''03.11.2026'', \<lparr>text = ''summary'', mdate = ''03.11.2026, 10:00:02''\<rparr>)]\<rparr>,
      Completed, (2, 0))
   \<and> toLocaleDateString (newDate (scripted (script [] (answer ''summary''))) (0, 0)) = ''03.11.2026''
   \<and> dayKey ''03.11.2026, 09:00:00'' = ''03.11.2026''
   \<and> map fst [(''01.11.2026'', \<lparr>text = ''summary'', mdate = ''03.11.2026, 10:00:01''\<rparr>),
               (''03.11.2026'', \<lparr>text = ''summary'', mdate = ''03.11.2026, 10:00:02''\<rparr>)]
       = [''01.11.2026'', ''03.11.2026'']"
proof -
  let ?rt = "scripted (script [] (answer ''summary''))"
  let ?s = "freshSession\<lparr>history := [said ''01.11.2026, 09:00:00'' ''hello'',
                                       said ''03.11.2026, 09:00:00'' ''again'']\<rparr>"
  let ?s' = "freshSession\<lparr>history := [said ''03.11.2026, 09:00:00'' ''again''],
        memories := [(''01.11.2026'', \<lparr>text = ''summary'', mdate = ''03.11.2026, 10:00:01''\<rparr>),
                     (''03.11.2026'', \<lparr>text = ''summary'', mdate = ''03.11.2026, 10:00:02''\<rparr>)]\<rparr>"
  have run: "generateSummary ?rt ?s (0, 0) = (?s', Completed, (2, 0))"
    by (simp add: run_defs)
  have ending: "Completed = Completed \<or> Completed = EmptyHistory" by simp
  have keys: "distinct (map fst (memories ?s))" by (simp add: freshSession_def)
  show ?thesis
    using run generateSummary_today_only_one_memory_per_day [OF run ending keys]
    by (simp add: scripted_def clockAt_def nov3_def said_def dayKey_def freshSession_def)
qed

subsection \<open>C2: fallback to the backup provider\<close>

text \<open>
  Claim C2. In \<^verbatim>\<open>generateResponseWithBackup\<close>, for every contents: if every call of the
  main model's adapter fails and every call of the backup model's adapter succeeds, the
  result is the result that the backup adapter returned, with \<open>usedBackupModel\<close> set;
  if the attempt with the main model fails with \<open>e\<close> and the attempt with the backup
  model fails with \<open>e'\<close>, the error thrown is \<open>e\<close>. Here \<open>e\<close> is what
  \<^verbatim>\<open>generateGeminiResponse\<close> throws for the main model: the adapter's last error, reworded
  when its status is 503 or 429 or when the content was blocked. When the main adapter
  fails with an error that has none of these marks, the error thrown is that error
  itself.
\<close>

theorem generateResponseWithBackup_fallback:
  "((\<forall>v. \<exists>e v'. mainModelOf rt s contents v = (Inl e, v')) \<and>
    (\<forall>v. \<exists>r v'. backupModelOf rt s contents v = (Inr r, v'))
    \<longrightarrow> (\<exists>w1 r w2. backupModelOf rt s contents w1 = (Inr r, w2) \<and>
          generateResponseWithBackup rt s contents w =
            (Inr (Some (r\<lparr>usedBackupModel := True\<rparr>)), w2)))
   \<and> (generateGeminiResponse rt (mainModelOf rt s) contents w = (Inl e, w1) \<and>
      generateGeminiResponse rt (backupModelOf rt s) contents w1 = (Inl e', w2)
    \<longrightarrow> generateResponseWithBackup rt s contents w = (Inl e, w2))
   \<and> (mainModelOf rt s contents w = (Inl e, w1) \<and>
      status e \<noteq> Some 503 \<and> status e \<noteq> Some 429 \<and>
      blockReason e \<noteq> Some ''PROHIBITED_CONTENT'' \<and>
      generateGeminiResponse rt (backupModelOf rt s) contents w1 = (Inl e', w2)
    \<longrightarrow> generateResponseWithBackup rt s contents w = (Inl e, w2))"
proof (intro conjI impI)
  assume a: "(\<forall>v. \<exists>e v'. mainModelOf rt s contents v = (Inl e, v')) \<and>
    (\<forall>v. \<exists>r v'. backupModelOf rt s contents v = (Inr r, v'))"
  obtain e1 v1 where p: "generateGeminiResponse rt (mainModelOf rt s) contents w = (Inl e1, v1)"
    using a gemini_always_fails [of "mainModelOf rt s" contents rt w] by blast
  obtain r v2 where b: "backupModelOf rt s contents v1 = (Inr r, v2)"
    using a by blast
  then have "generateGeminiResponse rt (backupModelOf rt s) contents v1 = (Inr (Some r), v2)"
    by (rule gemini_first_success)
  with p have "generateResponseWithBackup rt s contents w =
      (Inr (Some (r\<lparr>usedBackupModel := True\<rparr>)), v2)"
    by (simp add: generateResponseWithBackup_def)
  with b show "\<exists>w1 r w2. backupModelOf rt s contents w1 = (Inr r, w2) \<and>
      generateResponseWithBackup rt s contents w = (Inr (Some (r\<lparr>usedBackupModel := True\<rparr>)), w2)"
    by blast
next
  assume "generateGeminiResponse rt (mainModelOf rt s) contents w = (Inl e, w1) \<and>
      generateGeminiResponse rt (backupModelOf rt s) contents w1 = (Inl e', w2)"
  then show "generateResponseWithBackup rt s contents w = (Inl e, w2)"
    by (simp add: generateResponseWithBackup_def)
next
  assume c: "mainModelOf rt s contents w = (Inl e, w1) \<and>
      status e \<noteq> Some 503 \<and> status e \<noteq> Some 429 \<and>
      blockReason e \<noteq> Some ''PROHIBITED_CONTENT'' \<and>
      generateGeminiResponse rt (backupModelOf rt s) contents w1 = (Inl e', w2)"
  then have "generateResponseWithRetry rt (mainModelOf rt s) contents 3 1000 w = (Inl e, w1)"
    by (simp add: generateResponseWithRetry_def retryLoop_throw)
  with c have "generateGeminiResponse rt (mainModelOf rt s) contents w = (Inl e, w1)"
    by (simp add: generateGeminiResponse_def)
  with c show "generateResponseWithBackup rt s contents w = (Inl e, w2)"
    by (simp add: generateResponseWithBackup_def)
qed

theorem generateResponseWithBackup_fallback_witness:
  "generateResponseWithBackup
     (scripted (byName (failure 500) (answer ''from the backup''))) freshSession [cue] (0, 0)
   = (Inr (Some \<lparr>response = Some (Inr ''from the backup''), usedBackupModel = True\<rparr>), (2, 0))
   \<and> generateResponseWithBackup
     (scripted (byName (failure 500) (failure 400))) freshSession [cue] (0, 0)
   = (Inl \<lparr>status = Some 500, message = ''request failed'', blockReason = None\<rparr>, (2, 0))"
  using generateResponseWithBackup_fallback
          [where rt = "scripted (byName (failure 500) (answer ''from the backup''))"
             and s = freshSession and contents = "[cue]" and w = "(0, 0)"
             and e = "\<lparr>status = Some 500, message = ''request failed'', blockReason = None\<rparr>"
             and ?w1.0 = "(1, 0)" and ?w2.0 = "(2, 0)"
             and e' = "\<lparr>status = Some 400, message = ''request failed'', blockReason = None\<rparr>"]
        generateResponseWithBackup_fallback
          [where rt = "scripted (byName (failure 500) (failure 400))"
             and s = freshSession and contents = "[cue]" and w = "(0, 0)"
             and e = "\<lparr>status = Some 500, message = ''request failed'', blockReason = None\<rparr>"
             and ?w1.0 = "(1, 0)" and ?w2.0 = "(2, 0)"
             and e' = "\<lparr>status = Some 400, message = ''request failed'', blockReason = None\<rparr>"]
  by (simp add: run_defs)

subsection \<open>C3: retrying one provider\<close>

text \<open>
  Claim C3. With a budget of three attempts, as \<^verbatim>\<open>generateGeminiResponse\<close> sets it, a call
  whose first two attempts fail with status 503 or 429 and whose third attempt succeeds
  returns the result of the third attempt; the waits in between are of 1000 and of 2000
  milliseconds. An attempt that fails with any other error makes
  \<^verbatim>\<open>generateResponseWithRetry\<close> throw that error at once, whatever the budget: the world
  is left as that one call of the adapter left it. \<^verbatim>\<open>generateGeminiResponse\<close> then
  throws too, in the same state of the world.
\<close>

theorem generateResponseWithRetry_budget: 
  "(model c w = (Inl e1, w1) \<and> (status e1 = Some 503 \<or> status e1 = Some 429) \<and>
    model c (setTimeout rt 1000 w1) = (Inl e2, w2) \<and> (status e2 = Some 503 \<or> status e2 = Some 429) \<and>
    model c (setTimeout rt 2000 w2) = (Inr r, w3)
    \<longrightarrow> generateResponseWithRetry rt model c 3 1000 w = (Inr (Some r), w3) \<and>
        generateGeminiResponse rt model c w = (Inr (Some r), w3))
   \<and> (model c w = (Inl e, w') \<and> status e \<noteq> Some 503 \<and> status e \<noteq> Some 429 \<and> 0 < retries
    \<longrightarrow> generateResponseWithRetry rt model c retries initialDelay w = (Inl e, w') \<and>
        (\<exists>e'. generateGeminiResponse rt model c w = (Inl e', w')))"
proof (intro conjI impI)
  assume a: "model c w = (Inl e1, w1) \<and> (status e1 = Some 503 \<or> status e1 = Some 429) \<and>
    model c (setTimeout rt 1000 w1) = (Inl e2, w2) \<and> (status e2 = Some 503 \<or> status e2 = Some 429) \<and>
    model c (setTimeout rt 2000 w2) = (Inr r, w3)"
  have "retryLoop rt model c 3 1 1000 w = retryLoop rt model c 3 (1 + 1) 2000 (setTimeout rt 1000 w1)"
    using a retryLoop_retry [of 1 3 model c w e1 w1 rt 1000] by simp
  also have "\<dots> = retryLoop rt model c 3 (1 + 1 + 1) 3000 (setTimeout rt 2000 w2)"
    using a retryLoop_retry [of "1 + 1" 3 model c "setTimeout rt 1000 w1" e2 w2 rt 2000] by simp
  also have "\<dots> = (Inr (Some r), w3)"
    using a retryLoop_success [of "1 + 1 + 1" 3 model c "setTimeout rt 2000 w2" r w3 rt 3000] by simp
  finally show g: "generateResponseWithRetry rt model c 3 1000 w = (Inr (Some r), w3)"
    by (simp add: generateResponseWithRetry_def)
  show "generateGeminiResponse rt model c w = (Inr (Some r), w3)"
    by (simp add: generateGeminiResponse_def g)
next
  assume b: "model c w = (Inl e, w') \<and> status e \<noteq> Some 503 \<and> status e \<noteq> Some 429 \<and> 0 < retries"
  then show "generateResponseWithRetry rt model c retries initialDelay w = (Inl e, w')"
    by (simp add: generateResponseWithRetry_def retryLoop_throw)
  from b have "generateResponseWithRetry rt model c 3 1000 w = (Inl e, w')"
    by (simp add: generateResponseWithRetry_def retryLoop_throw)
  then show "\<exists>e'. generateGeminiResponse rt model c w = (Inl e', w')"
    by (simp add: generateGeminiResponse_def)
qed

theorem generateResponseWithRetry_budget_witness:
  "generateResponseWithRetry (scripted (script [failure 503, failure 429] (answer ''third'')))
     (createGeminiModel (scripted (script [failure 503, failure 429] (answer ''third'')))
        ''gemini-exp-1206'' 700 (3 / 2))
     [cue] 3 1000 (0, 0)
   = (Inr (Some \<lparr>response = Some (Inr ''third''), usedBackupModel = False\<rparr>), (3, 3000))
   \<and> generateResponseWithRetry (scripted (script [] (failure 400)))
     (createGeminiModel (scripted (script [] (failure 400))) ''gemini-exp-1206'' 700 (3 / 2))
     [cue] 3 1000 (0, 0)
   = (Inl \<lparr>status = Some 400, message = ''request failed'', blockReason = None\<rparr>, (1, 0))"
  using generateResponseWithRetry_budget
          [where rt = "scripted (script [failure 503, failure 429] (answer ''third''))"
             and model = "createGeminiModel
                            (scripted (script [failure 503, failure 429] (answer ''third'')))
                            ''gemini-exp-1206'' 700 (3 / 2)"
             and c = "[cue]" and w = "(0, 0)"
             and ?e1.0 = "\<lparr>status = Some 503, message = ''request failed'', blockReason = None\<rparr>"
             and ?w1.0 = "(1, 0)"
             and ?e2.0 = "\<lparr>status = Some 429, message = ''request failed'', blockReason = None\<rparr>"
             and ?w2.0 = "(2, 1000)"
             and r = "\<lparr>response = Some (Inr ''third''), usedBackupModel = False\<rparr>"
             and ?w3.0 = "(3, 3000)"
             and e = "\<lparr>status = Some 503, message = ''request failed'', blockReason = None\<rparr>"
             and w' = "(1, 0)" and retries = 3 and initialDelay = 1000]
        generateResponseWithRetry_budget
          [where rt = "scripted (script [] (failure 400))"
             and model = "createGeminiModel (scripted (script [] (failure 400)))
                            ''gemini-exp-1206'' 700 (3 / 2)"
             and c = "[cue]" and w = "(0, 0)"
             and e = "\<lparr>status = Some 400, message = ''request failed'', blockReason = None\<rparr>"
             and w' = "(1, 0)" and retries = 3 and initialDelay = 1000]
  by (simp add: scripted_def script_def failure_def answer_def)

subsection \<open>C4: the fragments of a prompt\<close>

text \<open>
  Claim C4. For every history, memories, user name, message and timestamp, the sequence
  that \<^verbatim>\<open>buildContents\<close> returns consists of one fragment for each memory in the order of
  the entries, then one fragment for each of the last at most 20 of the turns of the
  history that are dated today, in the order of the history, then the fragment of the
  new turn, then the cue with the assistant's name. Its length is the number of
  memories plus the smaller of 20 and the number of today's turns plus 2.
\<close>

theorem buildContents_fragments:
  "\<exists>recent.
      suffix recent (filter (\<lambda>msg. isMessageFromToday num now (date msg)) history0) \<and>
      length recent =
        min 20 (length (filter (\<lambda>msg. isMessageFromToday num now (date msg)) history0)) \<and>
      buildContents num now history0 memories0 userName userMessage messageDate =
        map memoryFragment memories0
        @ map (\<lambda>x. turnFragment (role x) (date x) (content x)) recent
        @ [turnFragment userName messageDate userMessage, cue] \<and>
      length (buildContents num now history0 memories0 userName userMessage messageDate) =
        length memories0
        + min 20 (length (filter (\<lambda>msg. isMessageFromToday num now (date msg)) history0)) + 2"
proof -
  let ?today = "filter (\<lambda>msg. isMessageFromToday num now (date msg)) history0"
  let ?recent = "drop (length ?today - 20) ?today"
  have "suffix ?recent ?today" by (rule suffix_drop)
  moreover have "length ?recent = min 20 (length ?today)" by simp
  moreover have "buildContents num now history0 memories0 userName userMessage messageDate =
        map memoryFragment memories0
        @ map (\<lambda>x. turnFragment (role x) (date x) (content x)) ?recent
        @ [turnFragment userName messageDate userMessage, cue]"
    by (simp add: buildContents_def Let_def)
  moreover have
    "length (buildContents num now history0 memories0 userName userMessage messageDate) =
       length memories0 + min 20 (length ?today) + 2"
    by (simp add: buildContents_def Let_def)
  ultimately show ?thesis by blast
qed

theorem buildContents_fragments_witness:
  "length (buildContents digitsNumber nov3 (replicate 21 (said ''03.11.2026, 08:00:00'' ''hi''))
     [(''02.11.2026'', \<lparr>text = ''met ann'', mdate = ''02.11.2026, 23:00:00''\<rparr>)]
     ''@ann'' ''bye'' ''03.11.2026, 08:02:00'') = 23
   \<and> length (buildContents digitsNumber nov3
       [said ''02.11.2026, 22:00:00'' ''old'', said ''03.11.2026, 08:00:00'' ''hi'']
       [] ''@ann'' ''bye'' ''03.11.2026, 08:02:00'') = 3"
  using buildContents_fragments
          [of digitsNumber nov3 "replicate 21 (said ''03.11.2026, 08:00:00'' ''hi'')"
              "[(''02.11.2026'', \<lparr>text = ''met ann'', mdate = ''02.11.2026, 23:00:00''\<rparr>)]"
              "''@ann''" "''bye''" "''03.11.2026, 08:02:00''"]
        buildContents_fragments
          [of digitsNumber nov3
              "[said ''02.11.2026, 22:00:00'' ''old'', said ''03.11.2026, 08:00:00'' ''hi'']"
              "[]" "''@ann''" "''bye''" "''03.11.2026, 08:02:00''"]
  by (auto simp: isMessageFromToday_def dayKey_def elemAt_def digitsNumber_def isDigit_def
        decimal_def nov3_def said_def)

subsection \<open>C5: what the composer depends on\<close>

text \<open>
  Claim C5 says that \<^verbatim>\<open>buildContents\<close> depends on its five arguments only, and not on
  the current date. The source reads the clock: \<^verbatim>\<open>isMessageFromToday\<close> compares each
  turn with \<^verbatim>\<open>new Date()\<close>. The same five arguments give three fragments on 3 November
  2026 and two fragments on the day after.
\<close>

theorem buildContents_reads_the_clock:
  "buildContents digitsNumber nov3 [said ''03.11.2026, 08:00:00'' ''hi''] [] ''@ann'' ''bye''
     ''03.11.2026, 08:02:00''
   \<noteq> buildContents digitsNumber nov4 [said ''03.11.2026, 08:00:00'' ''hi''] [] ''@ann'' ''bye''
     ''03.11.2026, 08:02:00''"
  by (simp add: composer_defs)

text \<open>
  Claim C5, amended. \<^verbatim>\<open>buildContents\<close> depends on its five arguments and on the calendar
  date of the clock, and on nothing else: two calls with the same arguments, made at
  moments whose day of the month, month and year agree, return the same fragments.
\<close>

theorem buildContents_same_calendar_day:
  "getDate now = getDate now' \<Longrightarrow> getMonth now = getMonth now' \<Longrightarrow>
   getFullYear now = getFullYear now' \<Longrightarrow>
   buildContents num now history0 memories0 userName userMessage messageDate =
     buildContents num now' history0 memories0 userName userMessage messageDate"
  by (simp add: buildContents_def isMessageFromToday_def)

theorem buildContents_same_calendar_day_witness:
  "buildContents digitsNumber nov3 [said ''03.11.2026, 08:00:00'' ''hi''] [] ''@ann'' ''bye''
     ''03.11.2026, 08:02:00''
   = buildContents digitsNumber (nov3\<lparr>toLocaleString := ''03.11.2026, 23:59:59''\<rparr>)
       [said ''03.11.2026, 08:00:00'' ''hi''] [] ''@ann'' ''bye'' ''03.11.2026, 08:02:00''
   \<and> toLocaleString nov3 \<noteq> toLocaleString (nov3\<lparr>toLocaleString := ''03.11.2026, 23:59:59''\<rparr>)"
proof -
  let ?later = "nov3\<lparr>toLocaleString := ''03.11.2026, 23:59:59''\<rparr>"
  have day: "getDate nov3 = getDate ?later" by simp
  have month: "getMonth nov3 = getMonth ?later" by simp
  have year: "getFullYear nov3 = getFullYear ?later" by simp
  show ?thesis
    using buildContents_same_calendar_day [OF day month year] by (simp add: nov3_def)
qed

subsection \<open>C6: consolidating twice\<close>

text \<open>
  Claim C6 says that a second run of \<^verbatim>\<open>generateSummary\<close>, with no turn added in between,
  leaves \<open>memories\<close> as the first run left it. The source summarises the group of the
  current day on every run (\<^verbatim>\<open>date === today\<close>, line 1150): with one turn dated today and
  a provider that answers the second call differently, the second run replaces the text
  and the timestamp of today's memory.
\<close>

theorem generateSummary_twice_rewrites_today:
  "generateSummary (scripted (script [answer ''first summary''] (answer ''second summary'')))
     (freshSession\<lparr>history := [said ''03.11.2026, 09:00:00'' ''hello'']\<rparr>) (0, 0)
   = (freshSession\<lparr>history := [said ''03.11.2026, 09:00:00'' ''hello''],
        memories := [(''03.11.2026'',
                      \<lparr>text = ''first summary'', mdate = ''03.11.2026, 10:00:01''\<rparr>)]\<rparr>,
      Completed, (1, 0))
   \<and> generateSummary (scripted (script [answer ''first summary''] (answer ''second summary'')))
     (freshSession\<lparr>history := [said ''03.11.2026, 09:00:00'' ''hello''],
        memories := [(''03.11.2026'',
                      \<lparr>text = ''first summary'', mdate = ''03.11.2026, 10:00:01''\<rparr>)]\<rparr>) (1, 0)
   = (freshSession\<lparr>history := [said ''03.11.2026, 09:00:00'' ''hello''],
        memories := [(''03.11.2026'',
                      \<lparr>text = ''second summary'', mdate = ''03.11.2026, 10:00:02''\<rparr>)]\<rparr>,
      Completed, (2, 0))
   \<and> [(''03.11.2026'', \<lparr>text = ''second summary'', mdate = ''03.11.2026, 10:00:02''\<rparr>)]
     \<noteq> [(''03.11.2026'', \<lparr>text = ''first summary'', mdate = ''03.11.2026, 10:00:01''\<rparr>)]"
  by (simp add: run_defs)

text \<open>
  Claim C6, amended. If the first run completes, a second run with no turn added in
  between leaves every entry of \<open>memories\<close> for a day other than the current day of the
  first run as the first run left it, and the days that have an entry, in their order,
  stay the same. Only the entry of that day can differ: it is written anew whenever a
  turn of that day is left and the provider answers.
\<close>

theorem generateSummary_twice_keeps_other_days:
  assumes "generateSummary rt s w = (s1, e1, w1)"
    and "e1 = Completed \<or> e1 = EmptyHistory"
    and "generateSummary rt s1 w1 = (s2, e2, w2)"
  shows "(\<forall>d. d \<noteq> toLocaleDateString (newDate rt w)
            \<longrightarrow> map_of (memories s2) d = map_of (memories s1) d) \<and>
         map fst (memories s2) = map fst (memories s1)"
proof (cases "history s1 = []")
  case True
  with assms(3) have "s2 = s1" by (simp add: generateSummary_empty)
  then show ?thesis by simp
next
  case False
  let ?today = "toLocaleDateString (newDate rt w)"
  have ne: "history s \<noteq> []"
    using assms(1) False generateSummary_empty [of s rt w] by auto
  with assms(1,2) have c: "generateSummary rt s w = (s1, Completed, w1)"
    using generateSummary_ending [of rt s w s1 e1 w1] by auto
  have h: "history s1 = filter (\<lambda>t. dayKey (date t) = ?today) (history s)"
    by (rule generateSummary_Completed(3) [OF c])
  from generateSummary_Completed(2) [OF c] obtain v where
    run1: "summarizeDays rt ?today (groupMessagesByDay (history s)) (memories s) w
             = (None, memories s1, v)" by blast
  have keys2: "fst ` set (groupMessagesByDay (history s1)) = {?today}"
    using False by (auto simp: keys_groupMessagesByDay h filter_empty_conv)
  have "?today \<in> fst ` set (groupMessagesByDay (history s))"
    using False by (force simp: keys_groupMessagesByDay h filter_empty_conv)
  then obtain g where "g \<in> set (groupMessagesByDay (history s))" and "fst g = ?today" by auto
  then have "map_of (memories s1) ?today \<noteq> None"
    using summarizeDays_done [OF run1] by auto
  then have present: "?today \<in> fst ` set (memories s1)"
    by (simp add: map_of_eq_None_iff)
  from generateSummary_loop [OF assms(3) False] obtain r v' where
    run2: "summarizeDays rt (toLocaleDateString (newDate rt w1))
             (groupMessagesByDay (history s1)) (memories s1) w1 = (r, memories s2, v')" by blast
  show ?thesis
  proof (intro conjI allI impI)
    fix d assume "d \<noteq> ?today"
    then have "d \<notin> fst ` set (groupMessagesByDay (history s1))" using keys2 by simp
    with run2 show "map_of (memories s2) d = map_of (memories s1) d"
      by (rule summarizeDays_other)
  next
    have "fst ` set (groupMessagesByDay (history s1)) \<subseteq> fst ` set (memories s1)"
      using keys2 present by simp
    with run2 show "map fst (memories s2) = map fst (memories s1)"
      by (rule summarizeDays_keys)
  qed
qed

theorem generateSummary_twice_keeps_other_days_witness:
  "generateSummary (scripted (script [answer ''first'', answer ''first''] (answer ''second'')))
     (freshSession\<lparr>history := [said ''02.11.2026, 09:00:00'' ''hello'',
                                 said ''03.11.2026, 09:00:00'' ''again'']\<rparr>) (0, 0)
   = (freshSession\<lparr>history := [said ''03.11.2026, 09:00:00'' ''again''],
        memories := [(''02.11.2026'', \<lparr>text = ''first'', mdate = ''03.11.2026, 10:00:01''\<rparr>),
                     (''03.11.2026'', \<lparr>text = ''first'', mdate = ''03.11.2026, 10:00:02''\<rparr>)]\<rparr>,
      Completed, (2, 0))
   \<and> generateSummary (scripted (script [answer ''first'', answer ''first''] (answer ''second'')))
     (freshSession\<lparr>history := [said ''03.11.2026, 09:00:00'' ''again''],
        memories := [(''02.11.2026'', \<lparr>text = ''first'', mdate = ''03.11.2026, 10:00:01''\<rparr>),
                     (''03.11.2026'', \<lparr>text = ''first'', mdate = ''03.11.2026, 10:00:02''\<rparr>)]\<rparr>) (2, 0)
   = (freshSession\<lparr>history := [said ''03.11.2026, 09:00:00'' ''again''],
        memories := [(''02.11.2026'', \<lparr>text = ''first'', mdate = ''03.11.2026, 10:00:01''\<rparr>),
                     (''03.11.2026'', \<lparr>text = ''second'', mdate = ''03.11.2026, 10:00:03''\<rparr>)]\<rparr>,
      Completed, (3, 0))"
proof -
  let ?rt = "scripted (script [answer ''first'', answer ''first''] (answer ''second''))"
  let ?s = "freshSession\<lparr>history := [said ''02.11.2026, 09:00:00'' ''hello'',
                                       said ''03.11.2026, 09:00:00'' ''again'']\<rparr>"
  let ?s1 = "freshSession\<lparr>history := [said ''03.11.2026, 09:00:00'' ''again''],
        memories := [(''02.11.2026'', \<lparr>text = ''first'', mdate = ''03.11.2026, 10:00:01''\<rparr>),
                     (''03.11.2026'', \<lparr>text = ''first'', mdate = ''03.11.2026, 10:00:02''\<rparr>)]\<rparr>"
  let ?s2 = "freshSession\<lparr>history := [said ''03.11.2026, 09:00:00'' ''again''],
        memories := [(''02.11.2026'', \<lparr>text = ''first'', mdate = ''03.11.2026, 10:00:01''\<rparr>),
                     (''03.11.2026'', \<lparr>text = ''second'', mdate = ''03.11.2026, 10:00:03''\<rparr>)]\<rparr>"
  have run1: "generateSummary ?rt ?s (0, 0) = (?s1, Completed, (2, 0))"
    by (simp add: run_defs)
  have ending: "Completed = Completed \<or> Completed = EmptyHistory" by simp
  have run2: "generateSummary ?rt ?s1 (2, 0) = (?s2, Completed, (3, 0))"
    by (simp add: run_defs)
  show ?thesis
    using run1 run2 generateSummary_twice_keeps_other_days [OF run1 ending run2] by simp
qed

subsection \<open>C7: a failure during consolidation\<close>

text \<open>
  Claim C7 says that a failure of the summary of one day does not keep the later days
  of the same pass from being attempted. In the source one \<^verbatim>\<open>try\<close> block encloses the
  whole loop (lines 1128-1201), so the first error leaves the loop. With turns of two
  days and a provider whose first call fails and whose later calls would succeed, the
  pass ends after that one call: the second day has no memory, although it needs one
  and its summary, attempted on its own in the state the failure left, succeeds.
\<close>

theorem generateSummary_failure_skips_later_days:
  "generateSummary (scripted (script [failure 500] (answer ''summary'')))
     (freshSession\<lparr>history := [said ''01.11.2026, 09:00:00'' ''hello'',
                                 said ''02.11.2026, 09:00:00'' ''bye'']\<rparr>) (0, 0)
   = (freshSession\<lparr>history := [said ''01.11.2026, 09:00:00'' ''hello'',
                                  said ''02.11.2026, 09:00:00'' ''bye'']\<rparr>,
      Caught \<lparr>status = Some 500, message = ''request failed'', blockReason = None\<rparr>, (1, 0))
   \<and> needsSummary [] ''02.11.2026'' ''03.11.2026''
   \<and> summarizeDay (scripted (script [failure 500] (answer ''summary''))) ''03.11.2026''
       (''02.11.2026'', [said ''02.11.2026, 09:00:00'' ''bye'']) [] (1, 0)
     = (Inr [(''02.11.2026'', \<lparr>text = ''summary'', mdate = ''03.11.2026, 10:00:02''\<rparr>)], (2, 0))"
  by (simp add: run_defs)

text \<open>
  Claim C7, amended. A failure of the summary of one day is caught inside
  \<^verbatim>\<open>generateSummary\<close>, which returns normally, and it ends the pass: when the groups
  before the failing one have been summarised, leaving the memories \<open>m1\<close>, and the
  summary of the group \<open>g\<close> fails with \<open>e\<close>, the call ends in its \<^verbatim>\<open>catch\<close> block with
  \<open>e\<close>, in the state of the world that the failed attempt left, with \<open>history\<close> as it
  was and with \<open>memories\<close> equal to \<open>m1\<close>. No group after \<open>g\<close> is attempted.
\<close>

theorem generateSummary_failure_ends_pass:
  assumes "history s \<noteq> []"
    and "groupMessagesByDay (history s) = gs1 @ g # gs2"
    and "summarizeDays rt (toLocaleDateString (newDate rt w)) gs1 (memories s) w = (None, m1, w1)"
    and "summarizeDay rt (toLocaleDateString (newDate rt w)) g m1 w1 = (Inl e, w2)"
  shows "generateSummary rt s w = (s\<lparr>memories := m1\<rparr>, Caught e, w2)"
  using assms by (simp add: generateSummary_def summarizeDays_append)

theorem generateSummary_failure_ends_pass_witness:
  "generateSummary (scripted (script [answer ''summary'', failure 500] (answer ''summary'')))
     (freshSession\<lparr>history := [said ''31.10.2026, 09:00:00'' ''one'',
                                 said ''01.11.2026, 09:00:00'' ''two'',
                                 said ''02.11.2026, 09:00:00'' ''three'']\<rparr>) (0, 0)
   = (freshSession\<lparr>history := [said ''31.10.2026, 09:00:00'' ''one'',
                                 said ''01.11.2026, 09:00:00'' ''two'',
                                 said ''02.11.2026, 09:00:00'' ''three''],
        memories := [(''31.10.2026'', \<lparr>text = ''summary'', mdate = ''03.11.2026, 10:00:01''\<rparr>)]\<rparr>,
      Caught \<lparr>status = Some 500, message = ''request failed'', blockReason = None\<rparr>, (2, 0))"
proof -
  let ?rt = "scripted (script [answer ''summary'', failure 500] (answer ''summary''))"
  let ?s = "freshSession\<lparr>history := [said ''31.10.2026, 09:00:00'' ''one'',
                                       said ''01.11.2026, 09:00:00'' ''two'',
                                       said ''02.11.2026, 09:00:00'' ''three'']\<rparr>"
  let ?m1 = "[(''31.10.2026'', \<lparr>text = ''summary'', mdate = ''03.11.2026, 10:00:01''\<rparr>)]"
  have nonempty: "history ?s \<noteq> []" by simp
  have groups: "groupMessagesByDay (history ?s) =
      [(''31.10.2026'', [said ''31.10.2026, 09:00:00'' ''one''])]
      @ (''01.11.2026'', [said ''01.11.2026, 09:00:00'' ''two''])
      # [(''02.11.2026'', [said ''02.11.2026, 09:00:00'' ''three''])]"
    by (simp add: groupMessagesByDay_def groupStep_def dayKey_def said_def)
  have before: "summarizeDays ?rt (toLocaleDateString (newDate ?rt (0, 0)))
      [(''31.10.2026'', [said ''31.10.2026, 09:00:00'' ''one''])] (memories ?s) (0, 0)
      = (None, ?m1, (1, 0))"
    by (simp add: run_defs)
  have failing: "summarizeDay ?rt (toLocaleDateString (newDate ?rt (0, 0)))
      (''01.11.2026'', [said ''01.11.2026, 09:00:00'' ''two'']) ?m1 (1, 0)
      = (Inl \<lparr>status = Some 500, message = ''request failed'', blockReason = None\<rparr>, (2, 0))"
    by (simp add: run_defs)
  show ?thesis
    using generateSummary_failure_ends_pass [OF nonempty groups before failing]
    by (simp add: freshSession_def)
qed

subsection \<open>C8: main and backup model must differ\<close>

text \<open>
  Claim C8. Choosing as main model the model that is the backup model of the session,
  or as backup model the one that is its main model, is answered with the notice that
  the two may not be equal, and the session, with \<open>mainModel\<close> and \<open>backupModel\<close>, is
  left as it was. The six handlers \<^verbatim>\<open>set_main_model_...\<close> and \<^verbatim>\<open>set_backup_model_...\<close>
  are \<open>setMainModel\<close> and \<open>setBackupModel\<close> at their three model names.
\<close>

theorem equal_model_choice_rejected:
  "(newMainModel = backupModel s \<longrightarrow> setMainModel rt newMainModel s w = (s, Inr SameModel, w)) \<and>
   (newBackupModel = mainModel s \<longrightarrow> setBackupModel rt newBackupModel s w = (s, Inr SameModel, w))"
  by (simp add: setMainModel_def setBackupModel_def)

theorem equal_model_choice_rejected_witness:
  "set_main_model_geminipro (scripted (script [] (answer ''x''))) freshSession (0, 0)
     = (freshSession, Inr SameModel, (0, 0)) \<and>
   set_backup_model_geminiexp (scripted (script [] (answer ''x''))) freshSession (0, 0)
     = (freshSession, Inr SameModel, (0, 0)) \<and>
   mainModel freshSession = ''gemini-exp-1206'' \<and> backupModel freshSession = ''gemini-1.5-pro-002''"
  using equal_model_choice_rejected
          [of "''gemini-1.5-pro-002''" freshSession "scripted (script [] (answer ''x''))" "(0, 0)"
              "''gemini-exp-1206''"]
  by (simp add: set_main_model_geminipro_def set_backup_model_geminiexp_def freshSession_def)

subsection \<open>C9: deleting the last turns\<close>

text \<open>
  Claim C9. While the session waits for a number of turns to delete and the text of
  the message reads as the positive integer \<open>n\<close>, the text handler leaves the history
  without its last \<open>n\<close> entries: what stays is the history up to its last \<open>n\<close>
  entries, which is shorter by \<open>n\<close> when the history has at least \<open>n\<close> entries and
  empty when it has fewer. \<open>memories\<close> is left as it was.
\<close>

theorem delete_last_messages:
  assumes "awaitingMessageDeletionCount s"
    and "parseInt (trim messageText) = Some n" and "0 < n"
    and "onMessageText rt userName messageText messageDate s w = (s', r, w')"
  shows "history s' = take (length (history s) - nat n) (history s) \<and>
         (nat n \<le> length (history s) \<longrightarrow> length (history s') + nat n = length (history s)) \<and>
         (length (history s) < nat n \<longrightarrow> history s' = []) \<and>
         memories s' = memories s"
proof -
  have "history s' = take (length (history s) - nat n) (history s) \<and> memories s' = memories s"
    using assms
    by (auto simp: onMessageText_def deleteLastMessages_def Let_def split: if_splits prod.splits option.splits)
  then show ?thesis by auto
qed

theorem delete_last_messages_witness:
  "onMessageText (scripted (script [] (answer ''x''))) ''@ann'' ''2'' ''03.11.2026, 09:00:00''
     (freshSession\<lparr>history := [said ''03.11.2026, 08:00:00'' ''a'', said ''03.11.2026, 08:01:00'' ''b'',
                                 said ''03.11.2026, 08:02:00'' ''c''],
                    memories := [(''02.11.2026'', \<lparr>text = ''met ann'', mdate = ''02.11.2026, 23:00:00''\<rparr>)],
                    awaitingMessageDeletionCount := True\<rparr>) (0, 0)
   = (freshSession\<lparr>history := [said ''03.11.2026, 08:00:00'' ''a''],
                     memories := [(''02.11.2026'', \<lparr>text = ''met ann'', mdate = ''02.11.2026, 23:00:00''\<rparr>)]\<rparr>,
      Inr (Deleted 2), (0, 0))
   \<and> onMessageText (scripted (script [] (answer ''x''))) ''@ann'' ''7'' ''03.11.2026, 09:00:00''
     (freshSession\<lparr>history := [said ''03.11.2026, 08:00:00'' ''a'', said ''03.11.2026, 08:01:00'' ''b'',
                                 said ''03.11.2026, 08:02:00'' ''c''],
                    memories := [(''02.11.2026'', \<lparr>text = ''met ann'', mdate = ''02.11.2026, 23:00:00''\<rparr>)],
                    awaitingMessageDeletionCount := True\<rparr>) (0, 0)
   = (freshSession\<lparr>memories := [(''02.11.2026'', \<lparr>text = ''met ann'', mdate = ''02.11.2026, 23:00:00''\<rparr>)]\<rparr>,
      Inr (Deleted 7), (0, 0))"
proof -
  let ?rt = "scripted (script [] (answer ''x''))"
  let ?s = "freshSession\<lparr>history := [said ''03.11.2026, 08:00:00'' ''a'', said ''03.11.2026, 08:01:00'' ''b'',
                                 said ''03.11.2026, 08:02:00'' ''c''],
                    memories := [(''02.11.2026'', \<lparr>text = ''met ann'', mdate = ''02.11.2026, 23:00:00''\<rparr>)],
                    awaitingMessageDeletionCount := True\<rparr>"
  let ?two = "freshSession\<lparr>history := [said ''03.11.2026, 08:00:00'' ''a''],
                     memories := [(''02.11.2026'', \<lparr>text = ''met ann'', mdate = ''02.11.2026, 23:00:00''\<rparr>)]\<rparr>"
  let ?seven = "freshSession\<lparr>memories := [(''02.11.2026'', \<lparr>text = ''met ann'', mdate = ''02.11.2026, 23:00:00''\<rparr>)]\<rparr>"
  have waiting: "awaitingMessageDeletionCount ?s" by simp
  have two: "parseInt (trim ''2'') = Some 2"
    by (simp add: parseInt_def isDigit_def decimal_def trim_def trimStart_def trimEnd_def
          whiteSpace_def wsLength_def)
  have seven: "parseInt (trim ''7'') = Some 7"
    by (simp add: parseInt_def isDigit_def decimal_def trim_def trimStart_def trimEnd_def
          whiteSpace_def wsLength_def)
  have positive: "(0::int) < 2" "(0::int) < 7" by simp_all
  have run2: "onMessageText ?rt ''@ann'' ''2'' ''03.11.2026, 09:00:00'' ?s (0, 0)
      = (?two, Inr (Deleted 2), (0, 0))"
    by (simp add: run_defs handler_defs)
  have run7: "onMessageText ?rt ''@ann'' ''7'' ''03.11.2026, 09:00:00'' ?s (0, 0)
      = (?seven, Inr (Deleted 7), (0, 0))"
    by (simp add: run_defs handler_defs)
  show ?thesis
    using run2 run7
      delete_last_messages [OF waiting two positive(1) run2]
      delete_last_messages [OF waiting seven positive(2) run7]
    by simp
qed

subsection \<open>C10: no blank reply enters the history\<close>

text \<open>
  Claim C10. In the handlers of text, photo and voice or audio messages, a reply of the
  model that is empty or white space after sanitising is replaced by the handler's
  apology, which is not empty, before it is stored and sent. Whenever one of the
  handlers changes the session, it has appended the user's turn and a turn of the
  assistant whose text is the reply it sends, and that text is not empty; a handler
  that ends with an error leaves the session as it was. (What follows the two pushes is
  \<open>countAndSummarize\<close>: the counter and, at 30 turns, a consolidation. The handler of
  messages in groups, lines 1797-1945, repeats the statements of the text handler.)
\<close>

theorem reply_never_blank:
  "(textMessage rt userName userMessage messageDate s w = (s', r, w') \<longrightarrow>
      (\<exists>e. r = Inl e \<and> s' = s) \<or>
      (\<exists>(result :: genResult) body raw botReply w2.
          response result = Some (Inr body) \<and>
          raw = sanitizeHtml rt (if usedBackupModel result then backupTag @ body else body) \<and>
          botReply = (if raw = [] \<or> trim raw = [] then textApology else raw) \<and>
          botReply \<noteq> [] \<and> r = Inr (Sent botReply) \<and>
          countAndSummarize rt
            (s\<lparr>history := history s @
                 [\<lparr>role = userName, content = userMessage, date = messageDate\<rparr>,
                  \<lparr>role = assistantName, content = botReply,
                    date = toLocaleString (newDate rt w2)\<rparr>]\<rparr>) w2 = (s', w'))) \<and>
   (photoMessage rt caption mimeType fileUri userName messageDate s w = (s', r, w') \<longrightarrow>
      (\<exists>e. r = Inl e \<and> s' = s) \<or>
      (\<exists>(result :: genResult) body raw botReply w2.
          response result = Some (Inr body) \<and> raw = sanitizeHtml rt body \<and>
          botReply = (if raw = [] \<or> trim raw = [] then photoApology else raw) \<and>
          botReply \<noteq> [] \<and> r = Inr (Sent botReply) \<and>
          countAndSummarize rt
            (s\<lparr>history := history s @
                 [\<lparr>role = userName,
                   content = (if caption \<noteq> [] then photoWithCaption @ caption @ [CHR 0x22]
                              else photoNoCaption),
                   date = messageDate\<rparr>,
                  \<lparr>role = assistantName, content = botReply,
                    date = toLocaleString (newDate rt w2)\<rparr>]\<rparr>) w2 = (s', w'))) \<and>
   (audioMessage rt mimeType fileUri userName messageDate s w = (s', r, w') \<longrightarrow>
      (\<exists>e. r = Inl e \<and> s' = s) \<or>
      (\<exists>(result :: genResult) body raw botReply w2.
          response result = Some (Inr body) \<and> raw = sanitizeHtml rt body \<and>
          botReply = (if raw = [] \<or> trim raw = [] then audioApology else raw) \<and>
          botReply \<noteq> [] \<and> r = Inr (Sent botReply) \<and>
          countAndSummarize rt
            (s\<lparr>history := history s @
                 [\<lparr>role = userName, content = audioSent, date = messageDate\<rparr>,
                  \<lparr>role = assistantName, content = botReply,
                    date = toLocaleString (newDate rt w2)\<rparr>]\<rparr>) w2 = (s', w')))"
proof (intro conjI impI)
  assume "textMessage rt userName userMessage messageDate s w = (s', r, w')"
  from textMessage_cases [OF this] consider
      (err) e where "r = Inl e" and "s' = s"
    | (ok) result :: genResult and body w2 where "response result = Some (Inr body)"
        and "r = Inr (Sent (orApology textApology (sanitizeHtml rt (if usedBackupModel result then backupTag @ body else body))))"
        and "recordExchange rt \<lparr>role = userName, content = userMessage, date = messageDate\<rparr>
               (orApology textApology (sanitizeHtml rt (if usedBackupModel result then backupTag @ body else body))) s w2 = (s', w')"
    by blast
  then show "(\<exists>e. r = Inl e \<and> s' = s) \<or>
      (\<exists>(result :: genResult) body raw botReply w2.
          response result = Some (Inr body) \<and>
          raw = sanitizeHtml rt (if usedBackupModel result then backupTag @ body else body) \<and>
          botReply = (if raw = [] \<or> trim raw = [] then textApology else raw) \<and>
          botReply \<noteq> [] \<and> r = Inr (Sent botReply) \<and>
          countAndSummarize rt
            (s\<lparr>history := history s @
                 [\<lparr>role = userName, content = userMessage, date = messageDate\<rparr>,
                  \<lparr>role = assistantName, content = botReply,
                    date = toLocaleString (newDate rt w2)\<rparr>]\<rparr>) w2 = (s', w'))"
  proof cases
    case err
    then show ?thesis by blast
  next
    case ok
    define raw where "raw = sanitizeHtml rt (if usedBackupModel result then backupTag @ body else body)"
    define botReply where "botReply = (if raw = [] \<or> trim raw = [] then textApology else raw)"
    have nonempty: "botReply \<noteq> []"
      using apologies_nonempty(1) by (simp add: botReply_def)
    have folded: "orApology textApology (sanitizeHtml rt (if usedBackupModel result then backupTag @ body else body)) = botReply"
      by (simp only: orApology_def botReply_def raw_def)
    have sent: "r = Inr (Sent botReply)"
      using ok(2) by (simp only: folded)
    have pushed: "countAndSummarize rt
            (s\<lparr>history := history s @
                 [\<lparr>role = userName, content = userMessage, date = messageDate\<rparr>,
                  \<lparr>role = assistantName, content = botReply,
                    date = toLocaleString (newDate rt w2)\<rparr>]\<rparr>) w2 = (s', w')"
      using ok(3) by (simp only: folded recordExchange_unfold)
    show ?thesis
      using ok(1) raw_def botReply_def nonempty sent pushed by blast
  qed
next
  assume "photoMessage rt caption mimeType fileUri userName messageDate s w = (s', r, w')"
  then have "mediaReply rt photoApology
       \<lparr>role = userName,
        content = (if caption \<noteq> [] then photoWithCaption @ caption @ [CHR 0x22] else photoNoCaption),
        date = messageDate\<rparr>
       (buildContents (Number rt) (newDate rt w) (history s) (memories s) userName
          (if trim caption \<noteq> [] then stripTags rt (trim caption) else describeImage) messageDate
        @ [FileData mimeType fileUri]) s w = (s', r, w')"
    by (simp only: photoMessage_media)
  from mediaReply_cases [OF this] consider
      (err) e where "r = Inl e" and "s' = s"
    | (ok) result :: genResult and body w2 where "response result = Some (Inr body)"
        and "r = Inr (Sent (orApology photoApology (sanitizeHtml rt body)))"
        and "recordExchange rt \<lparr>role = userName,
               content = (if caption \<noteq> [] then photoWithCaption @ caption @ [CHR 0x22]
                          else photoNoCaption),
               date = messageDate\<rparr>
               (orApology photoApology (sanitizeHtml rt body)) s w2 = (s', w')"
    by blast
  then show "(\<exists>e. r = Inl e \<and> s' = s) \<or>
      (\<exists>(result :: genResult) body raw botReply w2.
          response result = Some (Inr body) \<and>
          raw = sanitizeHtml rt body \<and>
          botReply = (if raw = [] \<or> trim raw = [] then photoApology else raw) \<and>
          botReply \<noteq> [] \<and> r = Inr (Sent botReply) \<and>
          countAndSummarize rt
            (s\<lparr>history := history s @
                 [\<lparr>role = userName,
                   content = (if caption \<noteq> [] then photoWithCaption @ caption @ [CHR 0x22]
                              else photoNoCaption),
                   date = messageDate\<rparr>,
                  \<lparr>role = assistantName, content = botReply,
                    date = toLocaleString (newDate rt w2)\<rparr>]\<rparr>) w2 = (s', w'))"
  proof cases
    case err
    then show ?thesis by blast
  next
    case ok
    define raw where "raw = sanitizeHtml rt body"
    define botReply where "botReply = (if raw = [] \<or> trim raw = [] then photoApology else raw)"
    have nonempty: "botReply \<noteq> []"
      using apologies_nonempty(2) by (simp add: botReply_def)
    have folded: "orApology photoApology (sanitizeHtml rt body) = botReply"
      by (simp only: orApology_def botReply_def raw_def)
    have sent: "r = Inr (Sent botReply)"
      using ok(2) by (simp only: folded)
    have pushed: "countAndSummarize rt
            (s\<lparr>history := history s @
                 [\<lparr>role = userName,
                   content = (if caption \<noteq> [] then photoWithCaption @ caption @ [CHR 0x22]
                              else photoNoCaption),
                   date = messageDate\<rparr>,
                  \<lparr>role = assistantName, content = botReply,
                    date = toLocaleString (newDate rt w2)\<rparr>]\<rparr>) w2 = (s', w')"
      using ok(3) by (simp only: folded recordExchange_unfold)
    show ?thesis
      using ok(1) raw_def botReply_def nonempty sent pushed by blast
  qed
next
  assume "audioMessage rt mimeType fileUri userName messageDate s w = (s', r, w')"
  then have "mediaReply rt audioApology \<lparr>role = userName, content = audioSent, date = messageDate\<rparr>
       (buildContents (Number rt) (newDate rt w) (history s) (memories s) userName audioSent
          messageDate @ [FileData mimeType fileUri]) s w = (s', r, w')"
    by (simp only: audioMessage_media)
  from mediaReply_cases [OF this] consider
      (err) e where "r = Inl e" and "s' = s"
    | (ok) result :: genResult and body w2 where "response result = Some (Inr body)"
        and "r = Inr (Sent (orApology audioApology (sanitizeHtml rt body)))"
        and "recordExchange rt \<lparr>role = userName, content = audioSent, date = messageDate\<rparr>
               (orApology audioApology (sanitizeHtml rt body)) s w2 = (s', w')"
    by blast
  then show "(\<exists>e. r = Inl e \<and> s' = s) \<or>
      (\<exists>(result :: genResult) body raw botReply w2.
          response result = Some (Inr body) \<and>
          raw = sanitizeHtml rt body \<and>
          botReply = (if raw = [] \<or> trim raw = [] then audioApology else raw) \<and>
          botReply \<noteq> [] \<and> r = Inr (Sent botReply) \<and>
          countAndSummarize rt
            (s\<lparr>history := history s @
                 [\<lparr>role = userName, content = audioSent, date = messageDate\<rparr>,
                  \<lparr>role = assistantName, content = botReply,
                    date = toLocaleString (newDate rt w2)\<rparr>]\<rparr>) w2 = (s', w'))"
  proof cases
    case err
    then show ?thesis by blast
  next
    case ok
    define raw where "raw = sanitizeHtml rt body"
    define botReply where "botReply = (if raw = [] \<or> trim raw = [] then audioApology else raw)"
    have nonempty: "botReply \<noteq> []"
      using apologies_nonempty(3) by (simp add: botReply_def)
    have folded: "orApology audioApology (sanitizeHtml rt body) = botReply"
      by (simp only: orApology_def botReply_def raw_def)
    have sent: "r = Inr (Sent botReply)"
      using ok(2) by (simp only: folded)
    have pushed: "countAndSummarize rt
            (s\<lparr>history := history s @
                 [\<lparr>role = userName, content = audioSent, date = messageDate\<rparr>,
                  \<lparr>role = assistantName, content = botReply,
                    date = toLocaleString (newDate rt w2)\<rparr>]\<rparr>) w2 = (s', w')"
      using ok(3) by (simp only: folded recordExchange_unfold)
    show ?thesis
      using ok(1) raw_def botReply_def nonempty sent pushed by blast
  qed
qed

theorem reply_never_blank_witness:
  "textMessage (scripted (script [] (answer [CHR 0x20, CHR 0x0A]))) ''@ann'' ''hello''
     ''03.11.2026, 09:00:00'' freshSession (0, 0)
   = (freshSession\<lparr>history := [said ''03.11.2026, 09:00:00'' ''hello'',
         \<lparr>role = assistantName, content = textApology, date = ''03.11.2026, 10:00:01''\<rparr>],
        messageCountSinceSummary := 2\<rparr>, Inr (Sent textApology), (1, 1000))
   \<and> photoMessage (scripted (script [] (answer []))) [] ''image/jpeg'' ''files/1'' ''@ann''
     ''03.11.2026, 09:00:00'' freshSession (0, 0)
   = (freshSession\<lparr>history := [said ''03.11.2026, 09:00:00'' photoNoCaption,
         \<lparr>role = assistantName, content = photoApology, date = ''03.11.2026, 10:00:01''\<rparr>],
        messageCountSinceSummary := 2\<rparr>, Inr (Sent photoApology), (1, 1000))
   \<and> audioMessage (scripted (script [] (answer ''I hear you''))) ''audio/ogg'' ''files/2'' ''@ann''
     ''03.11.2026, 09:00:00'' freshSession (0, 0)
   = (freshSession\<lparr>history := [said ''03.11.2026, 09:00:00'' audioSent,
         \<lparr>role = assistantName, content = ''I hear you'', date = ''03.11.2026, 10:00:01''\<rparr>],
        messageCountSinceSummary := 2\<rparr>, Inr (Sent ''I hear you''), (1, 1000))"
  using reply_never_blank
          [where rt = "scripted (script [] (answer [CHR 0x20, CHR 0x0A]))"
             and userName = "''@ann''" and userMessage = "''hello''"
             and messageDate = "''03.11.2026, 09:00:00''" and s = freshSession and w = "(0, 0)"
             and r = "Inr (Sent textApology)" and w' = "(1, 1000)"]
        reply_never_blank
          [where rt = "scripted (script [] (answer []))" and caption = "[]"
             and mimeType = "''image/jpeg''" and fileUri = "''files/1''"
             and userName = "''@ann''" and messageDate = "''03.11.2026, 09:00:00''"
             and s = freshSession and w = "(0, 0)"
             and r = "Inr (Sent photoApology)" and w' = "(1, 1000)"]
        reply_never_blank
          [where rt = "scripted (script [] (answer ''I hear you''))"
             and mimeType = "''audio/ogg''" and fileUri = "''files/2''"
             and userName = "''@ann''" and messageDate = "''03.11.2026, 09:00:00''"
             and s = freshSession and w = "(0, 0)"
             and r = "Inr (Sent ''I hear you'')" and w' = "(1, 1000)"]
  by (simp add: run_defs handler_defs)

end
